theory Spec2Isabelle
  imports Complex_Main
begin

section \<open>The submission handler of docs/backend/function.go\<close>

text \<open>
  The Go file holds one HTTP handler, \<open>CORSEnabledFunctionAuth\<close>, and three helpers:
  \<open>jsonResponse\<close>, \<open>checkRecaptchaToken\<close> and \<open>addRecord\<close>. The handler is modelled
  as a function from the process configuration, the environment (the libraries and
  services the code calls) and the request to the final state of the response writer
  together with the list of effects the run performed, in order.
\<close>

subsection \<open>Data\<close>

type_synonym bytes = string

text \<open>\<open>const LIMIT int64 = 32768\<close>; a positive constant, used only as a byte count.\<close>

definition LIMIT :: nat where
  "LIMIT = 32768"

definition recaptchaServerName :: string where
  "recaptchaServerName = ''https://www.google.com/recaptcha/api/siteverify''"

text \<open>\<open>json.RawMessage\<close> is a byte slice; \<open>None\<close> is the nil slice.\<close>

type_synonym rawMessage = "bytes option"

record serverRequest =
  ReCaptchaToken :: string
  ID :: string
  Answers :: rawMessage

record serverResponse =
  Status :: string
  Message :: string

text \<open>
  A \<open>time.Time\<close>: the instant in seconds since the Unix epoch, and the offset (seconds
  east of UTC) of the location the value carries. \<open>time.Now()\<close> carries the process's
  local zone, \<open>t.UTC()\<close> the zero offset.
\<close>

record Time =
  unixSec :: int
  zoneOffset :: int

text \<open>\<open>Score\<close> is a float64 in the source; the handler never reads it.\<close>

record recaptchaResponse =
  Success :: bool
  Score :: real
  Action :: string
  ChallengeTS :: Time
  Hostname :: string
  ErrorCodes :: "string list"

text \<open>
  The two package variables that \<open>init()\<close> sets from the process environment and the
  handler reads. (\<open>init()\<close> also exits when no bucket name is set; a handler runs only
  after it has returned.)
\<close>

record config =
  recaptchaPrivateKey :: string
  recaptchaBypass :: string

text \<open>
  An \<open>io.Reader\<close> over a body: the bytes it yields and then either end of file
  (\<open>None\<close>) or an error. A \<open>Read\<close> may return its error together with the last bytes
  or in a call of its own after them; \<open>rd_failure_with_data\<close> tells which.
\<close>

record reader =
  rd_content :: bytes
  rd_failure :: "string option"
  rd_failure_with_data :: bool

record request =
  req_Method :: string
  req_Header :: "(string \<times> string list) list"
  req_Body :: reader

text \<open>
  What the code calls and does not define. The three JSON functions are those of
  \<open>encoding/json\<close> at the types the source uses them; an error is \<open>Inl\<close> of its text.
  \<open>object_Copy\<close> and \<open>object_Close\<close> are the two fallible steps on the bucket's
  object writer, \<open>None\<close> standing for a nil error.
\<close>

record env =
  json_Unmarshal_serverRequest :: "bytes \<Rightarrow> string + serverRequest"
  json_Unmarshal_recaptchaResponse :: "bytes \<Rightarrow> string + recaptchaResponse"
  json_Marshal_RawMessage :: "rawMessage \<Rightarrow> string + bytes"
  http_PostForm :: "string \<Rightarrow> (string \<times> string list) list \<Rightarrow> string + reader"
  time_Now :: Time
  object_Copy :: "string \<Rightarrow> bytes \<Rightarrow> string option"
  object_Close :: "string \<Rightarrow> string option"

text \<open>The effects of a run that the claims speak about, in the order they happen.\<close>

datatype event =
    EvReadBody bytes
  | EvLog string
  | EvUnmarshalRequest bytes
  | EvPostForm string "(string \<times> string list) list"
  | EvUnmarshalRecaptcha bytes
  | EvObjectWrite string bytes
  | EvObjectClose string

text \<open>
  The state of a run: the \<open>http.ResponseWriter\<close> (its header map, whether the status
  line has gone out, the status and headers that went out with it, the body written so
  far) and the effects so far.
\<close>

record run =
  w_header :: "(string \<times> string) list"
  w_wroteHeader :: bool
  w_status :: nat
  w_sentHeader :: "(string \<times> string) list"
  w_body :: bytes
  effects :: "event list"

definition newRun :: run where
  "newRun = \<lparr>w_header = [], w_wroteHeader = False, w_status = 0, w_sentHeader = [],
     w_body = [], effects = []\<rparr>"

subsection \<open>net/http: the response writer and request headers\<close>

text \<open>\<open>Header().Set\<close>: replace the value stored under the key, or add the key.\<close>

fun header_put :: "string \<Rightarrow> string \<Rightarrow> (string \<times> string) list \<Rightarrow> (string \<times> string) list" where
  "header_put k v [] = [(k, v)]"
| "header_put k v ((k', v') # hs) =
     (if k' = k then (k, v) # hs else (k', v') # header_put k v hs)"

definition Header_Set :: "string \<Rightarrow> string \<Rightarrow> run \<Rightarrow> run" where
  "Header_Set k v s = s\<lparr>w_header := header_put k v (w_header s)\<rparr>"

text \<open>
  \<open>WriteHeader\<close>: the first call sends the status line with the headers set so far; a
  later call is superfluous and changes nothing.
\<close>

definition WriteHeader :: "nat \<Rightarrow> run \<Rightarrow> run" where
  "WriteHeader c s =
     (if w_wroteHeader s then s
      else s\<lparr>w_wroteHeader := True, w_status := c, w_sentHeader := w_header s\<rparr>)"

definition bodyAllowedForStatus :: "nat \<Rightarrow> bool" where
  "bodyAllowedForStatus c = (\<not> (100 \<le> c \<and> c \<le> 199) \<and> c \<noteq> 204 \<and> c \<noteq> 304)"

text \<open>\<open>Write\<close>: sends status 200 first when no status has gone out; the bytes are appended.\<close>

definition Write :: "bytes \<Rightarrow> run \<Rightarrow> run" where
  "Write p s =
     (let s1 = (if w_wroteHeader s then s else WriteHeader 200 s)
      in if bodyAllowedForStatus (w_status s1) then s1\<lparr>w_body := w_body s1 @ p\<rparr> else s1)"

definition http_Error :: "string \<Rightarrow> nat \<Rightarrow> run \<Rightarrow> run" where
  "http_Error msg code s =
     Write (msg @ [CHR 0x0A])
       (WriteHeader code
         (Header_Set ''X-Content-Type-Options'' ''nosniff''
           (Header_Set ''Content-Type'' ''text/plain; charset=utf-8'' s)))"

text \<open>\<open>r.Header.Get\<close>: the first value stored under the key, the empty string when none.\<close>

fun Header_Get :: "(string \<times> string list) list \<Rightarrow> string \<Rightarrow> string" where
  "Header_Get [] k = []"
| "Header_Get ((k', vs) # hs) k =
     (if k' = k then (case vs of [] \<Rightarrow> [] | v # _ \<Rightarrow> v) else Header_Get hs k)"

definition MethodOptions :: string where
  "MethodOptions = ''OPTIONS''"

definition StatusOK :: nat where "StatusOK = 200"
definition StatusNoContent :: nat where "StatusNoContent = 204"
definition StatusBadRequest :: nat where "StatusBadRequest = 400"
definition StatusInternalServerError :: nat where "StatusInternalServerError = 500"

subsection \<open>io: reading a body under a limit\<close>

text \<open>
  \<open>io.LimitReader r n\<close> passes on what \<open>r\<close> returns until \<open>n\<close> bytes have been
  read, then answers end of file and never touches \<open>r\<close> again. So an error of \<open>r\<close>
  surfaces when fewer than \<open>n\<close> bytes precede it, or when it comes in the very
  \<open>Read\<close> that returns the \<open>n\<close>-th byte as the last one of \<open>r\<close>; behind more than
  \<open>n\<close> bytes, or in a call of its own behind exactly \<open>n\<close>, it is never seen.
\<close>

definition io_LimitReader :: "reader \<Rightarrow> nat \<Rightarrow> reader" where
  "io_LimitReader r n =
     (if n = length (rd_content r) \<and> 0 < n \<and> rd_failure_with_data r then r
      else if n \<le> length (rd_content r) then
        \<lparr>rd_content = take n (rd_content r), rd_failure = None, rd_failure_with_data = False\<rparr>
      else r)"

text \<open>\<open>ioutil.ReadAll\<close>: the bytes read, and the error that stopped the reading if any.\<close>

definition ioutil_ReadAll :: "reader \<Rightarrow> bytes \<times> string option" where
  "ioutil_ReadAll r = (rd_content r, rd_failure r)"

subsection \<open>encoding/json: marshalling the response envelope\<close>

text \<open>
  \<open>json.Marshal\<close> of a \<open>serverResponse\<close> writes the two string fields under their
  tags, each string through the encoder's string routine with HTML escaping on: printable
  ASCII is copied except the quote, the backslash and \<open><\<close>, \<open>>\<close>, \<open>&\<close>; an invalid
  UTF-8 byte becomes the escape of U+FFFD; U+2028 and U+2029 are escaped; every other
  valid UTF-8 sequence is copied.
\<close>

definition byte :: "char \<Rightarrow> nat" where
  "byte c = of_char c"

definition dquote :: char where
  "dquote = CHR 0x22"

definition backslash :: char where
  "backslash = CHR 0x5C"

definition hex :: "nat \<Rightarrow> char" where
  "hex n = ''0123456789abcdef'' ! n"

definition htmlSafeSet :: "char \<Rightarrow> bool" where
  "htmlSafeSet c =
     (0x20 \<le> byte c \<and> byte c < 0x80 \<and> c \<noteq> dquote \<and> c \<noteq> backslash \<and>
      c \<noteq> CHR ''<'' \<and> c \<noteq> CHR ''>'' \<and> c \<noteq> CHR ''&'')"

definition escapeByte :: "char \<Rightarrow> bytes" where
  "escapeByte c =
     backslash #
       (if c = backslash \<or> c = dquote then [c]
        else if c = CHR 0x0A then ''n''
        else if c = CHR 0x0D then ''r''
        else if c = CHR 0x09 then ''t''
        else ''u00'' @ [hex (byte c div 16), hex (byte c mod 16)])"

definition utf8_seqLen :: "nat \<Rightarrow> nat" where
  "utf8_seqLen b =
     (if 0xC2 \<le> b \<and> b \<le> 0xDF then 2
      else if 0xE0 \<le> b \<and> b \<le> 0xEF then 3
      else if 0xF0 \<le> b \<and> b \<le> 0xF4 then 4
      else 0)"

definition utf8_accept :: "nat \<Rightarrow> nat \<times> nat" where
  "utf8_accept b =
     (if b = 0xE0 then (0xA0, 0xBF)
      else if b = 0xED then (0x80, 0x9F)
      else if b = 0xF0 then (0x90, 0xBF)
      else if b = 0xF4 then (0x80, 0x8F)
      else (0x80, 0xBF))"

definition inRange :: "nat \<times> nat \<Rightarrow> char \<Rightarrow> bool" where
  "inRange lh c = (fst lh \<le> byte c \<and> byte c \<le> snd lh)"

text \<open>
  \<open>utf8.DecodeRuneInString\<close> at a first byte of 0x80 or more: the size of the encoding
  at the head of the string, with 0 for the answer (RuneError, 1).
\<close>

definition utf8_runeSize :: "bytes \<Rightarrow> nat" where
  "utf8_runeSize s =
     (case s of
        [] \<Rightarrow> 0
      | c # cs \<Rightarrow>
          (let sz = utf8_seqLen (byte c) in
           if sz = 0 \<or> length s < sz then 0
           else if \<not> inRange (utf8_accept (byte c)) (cs ! 0) then 0
           else if sz \<le> 2 then 2
           else if \<not> inRange (0x80, 0xBF) (cs ! 1) then 0
           else if sz \<le> 3 then 3
           else if \<not> inRange (0x80, 0xBF) (cs ! 2) then 0
           else 4))"

function encodeString :: "bytes \<Rightarrow> bytes" where
  "encodeString [] = []"
| "encodeString (c # cs) =
     (if byte c < 0x80 then
        (if htmlSafeSet c then [c] else escapeByte c) @ encodeString cs
      else if utf8_runeSize (c # cs) = 0 then
        (backslash # ''ufffd'') @ encodeString cs
      else if take 2 cs = [CHR 0x80, CHR 0xA8] \<and> c = CHR 0xE2 then
        (backslash # ''u2028'') @ encodeString (drop 2 cs)
      else if take 2 cs = [CHR 0x80, CHR 0xA9] \<and> c = CHR 0xE2 then
        (backslash # ''u2029'') @ encodeString (drop 2 cs)
      else
        take (utf8_runeSize (c # cs)) (c # cs) @
        encodeString (drop (utf8_runeSize (c # cs) - 1) cs))"
  by pat_completeness auto
termination
  by (relation "measure length") auto

definition jsonString :: "string \<Rightarrow> bytes" where
  "jsonString s = dquote # encodeString s @ [dquote]"

definition serverResponse_json :: "serverResponse \<Rightarrow> bytes" where
  "serverResponse_json d =
     ''{'' @ jsonString ''status'' @ '':'' @ jsonString (Status d) @ '','' @
     jsonString ''message'' @ '':'' @ jsonString (Message d) @ ''}''"

text \<open>Marshalling a struct of two strings has no failing case.\<close>

definition json_Marshal_serverResponse :: "serverResponse \<Rightarrow> string + bytes" where
  "json_Marshal_serverResponse d = Inr (serverResponse_json d)"

subsection \<open>time: formatting the key prefix\<close>

text \<open>
  \<open>t.Format\<close> with the layout \<open>2006/01/02/15/04/\<close>: the year on four digits and the month, day, hour
  and minute on two, each followed by a slash, of the civil time at \<open>t\<close>'s instant in
  \<open>t\<close>'s location (proleptic Gregorian calendar).
\<close>

fun decimal :: "nat \<Rightarrow> string" where
  "decimal n =
     (if n < 10 then [''0123456789'' ! n]
      else decimal (n div 10) @ [''0123456789'' ! (n mod 10)])"

declare decimal.simps [simp del]

definition appendInt :: "int \<Rightarrow> nat \<Rightarrow> string" where
  "appendInt x width =
     (let ds = decimal (nat \<bar>x\<bar>)
      in (if x < 0 then ''-'' else []) @ replicate (width - length ds) (CHR ''0'') @ ds)"

text \<open>The date (year, month, day) of a day counted from 1970-01-01.\<close>

definition civil :: "int \<Rightarrow> int \<times> int \<times> int" where
  "civil days =
     (let z = days + 719468;
          era = z div 146097;
          doe = z mod 146097;
          yoe = (doe - doe div 1460 + doe div 36524 - doe div 146096) div 365;
          doy = doe - (365 * yoe + yoe div 4 - yoe div 100);
          mp = (5 * doy + 2) div 153;
          d = doy - (153 * mp + 2) div 5 + 1;
          m = (if mp < 10 then mp + 3 else mp - 9);
          y = yoe + era * 400 + (if m \<le> 2 then 1 else 0)
      in (y, m, d))"

definition Time_Format_key :: "Time \<Rightarrow> string" where
  "Time_Format_key t =
     (let local = unixSec t + zoneOffset t;
          secs = local mod 86400;
          (y, m, d) = civil (local div 86400)
      in appendInt y 4 @ ''/'' @ appendInt m 2 @ ''/'' @ appendInt d 2 @ ''/'' @
         appendInt (secs div 3600) 2 @ ''/'' @ appendInt (secs mod 3600 div 60) 2 @ ''/'')"

definition Time_UTC :: "Time \<Rightarrow> Time" where
  "Time_UTC t = t\<lparr>zoneOffset := 0\<rparr>"

subsection \<open>The helpers of function.go\<close>

text \<open>
  \<open>jsonResponse\<close>. When marshalling fails the source calls \<open>http.Error\<close> and goes on
  (there is no return), with \<open>dj\<close> nil.
\<close>

definition jsonResponse :: "nat \<Rightarrow> serverResponse \<Rightarrow> run \<Rightarrow> run" where
  "jsonResponse c d s =
     (case json_Marshal_serverResponse d of
        Inl err \<Rightarrow>
          Write []
            (WriteHeader c
              (Header_Set ''Content-Type'' ''application/json''
                (http_Error ''Error creating JSON response'' StatusInternalServerError s)))
      | Inr dj \<Rightarrow>
          Write dj (WriteHeader c (Header_Set ''Content-Type'' ''application/json'' s)))"

text \<open>
  \<open>checkRecaptchaToken remoteip response\<close>: the result, and the effects of the call in
  order. The form is the \<open>url.Values\<close> literal of the source.
\<close>

definition recaptchaForm :: "config \<Rightarrow> string \<Rightarrow> string \<Rightarrow> (string \<times> string list) list" where
  "recaptchaForm cfg remoteip response =
     [(''secret'', [recaptchaPrivateKey cfg]), (''remoteip'', [remoteip]),
      (''response'', [response])]"

definition checkRecaptchaToken ::
  "config \<Rightarrow> env \<Rightarrow> string \<Rightarrow> string \<Rightarrow> (string + recaptchaResponse) \<times> event list" where
  "checkRecaptchaToken cfg ev remoteip response =
     (let form = recaptchaForm cfg remoteip response;
          posted = [EvPostForm recaptchaServerName form]
      in case http_PostForm ev recaptchaServerName form of
           Inl err \<Rightarrow> (Inl (''Post to recaptcha error '' @ err), posted)
         | Inr resp_Body \<Rightarrow>
             (case ioutil_ReadAll resp_Body of
                (body, Some err) \<Rightarrow> (Inl (''Read error: could not read body '' @ err), posted)
              | (body, None) \<Rightarrow>
                  (case json_Unmarshal_recaptchaResponse ev body of
                     Inl err \<Rightarrow>
                       (Inl (''Read error: got invalid JSON '' @ err),
                        posted @ [EvUnmarshalRecaptcha body])
                   | Inr r \<Rightarrow> (Inr r, posted @ [EvUnmarshalRecaptcha body]))))"

text \<open>
  \<open>addRecord id payload\<close>, the object's name written \<open>name\<close> here: copy the
  payload into the writer of the object, then close it; the first error is returned.
  The 50 second deadline of the source shows here only as an error of one of the two
  steps.
\<close>

definition addRecord :: "env \<Rightarrow> string \<Rightarrow> bytes \<Rightarrow> string option \<times> event list" where
  "addRecord ev name payload =
     (case object_Copy ev name payload of
        Some err \<Rightarrow> (Some err, [EvObjectWrite name payload])
      | None \<Rightarrow>
          (case object_Close ev name of
             Some err \<Rightarrow> (Some err, [EvObjectWrite name payload, EvObjectClose name])
           | None \<Rightarrow> (None, [EvObjectWrite name payload, EvObjectClose name])))"

text \<open>Recording the effects of a call on the run.\<close>

definition emits :: "event list \<Rightarrow> run \<Rightarrow> run" where
  "emits es s = s\<lparr>effects := effects s @ es\<rparr>"

subsection \<open>The handler\<close>

text \<open>
  Lines 159 to 168 of the source (add to database, then answer): both branches of
  the verification test fall through to them, so they are one function here.
\<close>

definition storageKey :: "env \<Rightarrow> serverRequest \<Rightarrow> string" where
  "storageKey ev t = Time_Format_key (time_Now ev) @ ID t"

definition storagePayload :: "env \<Rightarrow> serverRequest \<Rightarrow> bytes" where
  "storagePayload ev t =
     (case json_Marshal_RawMessage ev (Answers t) of Inl err \<Rightarrow> [] | Inr answers \<Rightarrow> answers)"

definition addToDatabase :: "env \<Rightarrow> serverRequest \<Rightarrow> run \<Rightarrow> run" where
  "addToDatabase ev t s =
     (case addRecord ev (storageKey ev t) (storagePayload ev t) of
        (Some err, es) \<Rightarrow>
          jsonResponse StatusInternalServerError
            \<lparr>Status = ''error'', Message = ''failed to upload data '' @ err\<rparr> (emits es s)
      | (None, es) \<Rightarrow>
          jsonResponse StatusOK \<lparr>Status = ''ok'', Message = ''thank you''\<rparr> (emits es s))"

text \<open>The test of line 149, on the decoded submission.\<close>

definition mustVerify :: "config \<Rightarrow> serverRequest \<Rightarrow> bool" where
  "mustVerify cfg t =
     (recaptchaPrivateKey cfg \<noteq> [] \<and>
      (recaptchaBypass cfg = [] \<or> ReCaptchaToken t \<noteq> recaptchaBypass cfg))"

definition CORSEnabledFunctionAuth :: "config \<Rightarrow> env \<Rightarrow> request \<Rightarrow> run" where
  "CORSEnabledFunctionAuth cfg ev r =
     (if req_Method r = MethodOptions then
        WriteHeader StatusNoContent
          (Header_Set ''Access-Control-Max-Age'' ''3600''
            (Header_Set ''Access-Control-Allow-Origin'' ''https://screencovid.com''
              (Header_Set ''Access-Control-Allow-Methods'' ''POST''
                (Header_Set ''Access-Control-Allow-Headers'' ''Authorization''
                  (Header_Set ''Access-Control-Allow-Credentials'' ''true'' newRun)))))
      else
        (let s = Header_Set ''Access-Control-Allow-Origin'' ''https://screencovid.com''
                   (Header_Set ''Access-Control-Allow-Credentials'' ''true'' newRun)
         in case ioutil_ReadAll (io_LimitReader (req_Body r) LIMIT) of
              (data, Some err) \<Rightarrow>
                jsonResponse StatusBadRequest
                  \<lparr>Status = ''error'', Message = ''must supply a payload''\<rparr>
                  (emits [EvReadBody data, EvLog err] s)
            | (data, None) \<Rightarrow>
                (case json_Unmarshal_serverRequest ev data of
                   Inl err \<Rightarrow>
                     jsonResponse StatusBadRequest
                       \<lparr>Status = ''error'', Message = ''error parsing input''\<rparr>
                       (emits [EvReadBody data, EvUnmarshalRequest data, EvLog err] s)
                 | Inr t \<Rightarrow>
                     (let s = emits [EvReadBody data, EvUnmarshalRequest data] s
                      in if mustVerify cfg t then
                           (case checkRecaptchaToken cfg ev (ReCaptchaToken t)
                                   (Header_Get (req_Header r) ''X-Forwarded-For'') of
                              (Inl err, es) \<Rightarrow>
                                jsonResponse StatusInternalServerError
                                  \<lparr>Status = ''error'', Message = err\<rparr> (emits es s)
                            | (Inr recaptchaResponse, es) \<Rightarrow>
                                addToDatabase ev t
                                  (if \<not> Success recaptchaResponse then
                                     jsonResponse StatusBadRequest
                                       \<lparr>Status = ''error'',
                                        Message = ''recaptcha thinks your are a bot''\<rparr>
                                       (emits es s)
                                   else emits es s))
                         else addToDatabase ev t s))))"

subsection \<open>Reading a run\<close>

text \<open>
  Names for what the statements below observe: the calls to the verification service
  and the writes to the bucket among the effects of a run, the result of the limited
  read of line 136, and the condition under which the handler holds a decoded
  submission \<open>t\<close>.
\<close>

fun isPostForm :: "event \<Rightarrow> bool" where
  "isPostForm (EvPostForm url form) = True"
| "isPostForm e = False"

fun isObjectWrite :: "event \<Rightarrow> bool" where
  "isObjectWrite (EvObjectWrite name payload) = True"
| "isObjectWrite e = False"

definition verificationCalls :: "run \<Rightarrow> event list" where
  "verificationCalls s = filter isPostForm (effects s)"

definition storageWrites :: "run \<Rightarrow> event list" where
  "storageWrites s = filter isObjectWrite (effects s)"

definition readRequest :: "request \<Rightarrow> bytes \<times> string option" where
  "readRequest r = ioutil_ReadAll (io_LimitReader (req_Body r) LIMIT)"

definition decodes_to :: "env \<Rightarrow> request \<Rightarrow> serverRequest \<Rightarrow> bool" where
  "decodes_to ev r t =
     (req_Method r \<noteq> MethodOptions \<and> snd (readRequest r) = None \<and>
      json_Unmarshal_serverRequest ev (fst (readRequest r)) = Inr t)"

text \<open>
  The run after the two headers of the main request are set, and after the body has been
  read and decoded; the header value passed to the verification client; the envelope
  of line 156.
\<close>

definition started :: run where
  "started =
     Header_Set ''Access-Control-Allow-Origin'' ''https://screencovid.com''
       (Header_Set ''Access-Control-Allow-Credentials'' ''true'' newRun)"

definition decoded :: "request \<Rightarrow> run" where
  "decoded r =
     emits [EvReadBody (fst (readRequest r)), EvUnmarshalRequest (fst (readRequest r))] started"

definition xForwardedFor :: "request \<Rightarrow> string" where
  "xForwardedFor r = Header_Get (req_Header r) ''X-Forwarded-For''"

definition botResponse :: serverResponse where
  "botResponse = \<lparr>Status = ''error'', Message = ''recaptcha thinks your are a bot''\<rparr>"

subsection \<open>Example inputs\<close>

text \<open>
  A submission and its body, an environment whose verification service answers with
  the given success flag and whose bucket answers the copy with the given error, at
  2020-04-01 00:00:00 UTC in a zone two hours east, and three configurations: with a
  private key and no bypass, with a bypass equal to the example token, and with no
  private key.
\<close>

definition exampleBody :: bytes where
  "exampleBody =
     ''{'' @ [dquote] @ ''captcha_token'' @ [dquote] @ '':'' @ [dquote] @ ''tok'' @ [dquote] @
     '','' @ [dquote] @ ''id'' @ [dquote] @ '':'' @ [dquote] @ ''abc'' @ [dquote] @
     '','' @ [dquote] @ ''answers'' @ [dquote] @ '':[1]}''"

definition exampleSubmission :: serverRequest where
  "exampleSubmission = \<lparr>ReCaptchaToken = ''tok'', ID = ''abc'', Answers = Some ''[1]''\<rparr>"

definition exampleVerdict :: "bool \<Rightarrow> recaptchaResponse" where
  "exampleVerdict human =
     \<lparr>Success = human, Score = 0, Action = [], ChallengeTS = \<lparr>unixSec = 0, zoneOffset = 0\<rparr>,
      Hostname = [], ErrorCodes = []\<rparr>"

definition exampleEnv :: "bool \<Rightarrow> string option \<Rightarrow> env" where
  "exampleEnv human copyErr =
     \<lparr>json_Unmarshal_serverRequest =
        (\<lambda>data. if data = exampleBody then Inr exampleSubmission else Inl ''invalid character''),
      json_Unmarshal_recaptchaResponse = (\<lambda>body. Inr (exampleVerdict human)),
      json_Marshal_RawMessage = (\<lambda>m. case m of None \<Rightarrow> Inr ''null'' | Some b \<Rightarrow> Inr b),
      http_PostForm = (\<lambda>url form. Inr \<lparr>rd_content = ''{}'', rd_failure = None, rd_failure_with_data = False\<rparr>),
      time_Now = \<lparr>unixSec = 1585699200, zoneOffset = 7200\<rparr>,
      object_Copy = (\<lambda>name payload. copyErr),
      object_Close = (\<lambda>name. None)\<rparr>"

definition exampleConfig :: config where
  "exampleConfig = \<lparr>recaptchaPrivateKey = ''private-key'', recaptchaBypass = []\<rparr>"

definition bypassConfig :: config where
  "bypassConfig = \<lparr>recaptchaPrivateKey = ''private-key'', recaptchaBypass = ''tok''\<rparr>"

definition openConfig :: config where
  "openConfig = \<lparr>recaptchaPrivateKey = [], recaptchaBypass = []\<rparr>"

definition exampleRequest :: "string \<Rightarrow> bytes \<Rightarrow> request" where
  "exampleRequest method body =
     \<lparr>req_Method = method, req_Header = [(''X-Forwarded-For'', [''203.0.113.7''])],
      req_Body = \<lparr>rd_content = body, rd_failure = None, rd_failure_with_data = False\<rparr>\<rparr>"

text \<open>
  A body over the limit: the example body followed by 40000 spaces, and an environment
  whose decoder, like \<open>json.Unmarshal\<close>, accepts white space after the value.
\<close>

definition paddedBody :: bytes where
  "paddedBody = exampleBody @ replicate 40000 (CHR '' '')"

definition lenientEnv :: env where
  "lenientEnv =
     (exampleEnv True None)
       \<lparr>json_Unmarshal_serverRequest :=
          (\<lambda>data. if take (length exampleBody) data = exampleBody \<and>
                      list_all (\<lambda>c. c = CHR '' '') (drop (length exampleBody) data)
                   then Inr exampleSubmission else Inl ''invalid character'')\<rparr>"

section \<open>Properties\<close>

subsection \<open>The response writer and the helpers\<close>

lemma Header_Set_proj [simp]:
  "w_wroteHeader (Header_Set k v s) = w_wroteHeader s"
  "w_status (Header_Set k v s) = w_status s"
  "w_sentHeader (Header_Set k v s) = w_sentHeader s"
  "w_body (Header_Set k v s) = w_body s"
  "effects (Header_Set k v s) = effects s"
  by (simp_all add: Header_Set_def)

lemma emits_proj [simp]:
  "w_header (emits es s) = w_header s"
  "w_wroteHeader (emits es s) = w_wroteHeader s"
  "w_status (emits es s) = w_status s"
  "w_sentHeader (emits es s) = w_sentHeader s"
  "w_body (emits es s) = w_body s"
  "effects (emits es s) = effects s @ es"
  by (simp_all add: emits_def)

lemma newRun_proj [simp]:
  "w_header newRun = []"
  "w_wroteHeader newRun = False"
  "w_sentHeader newRun = []"
  "w_body newRun = []"
  "effects newRun = []"
  by (simp_all add: newRun_def)

text \<open>
  \<open>jsonResponse\<close> performs no effect; it decides the status only when none has gone out
  yet, and appends the envelope to the body.
\<close>

lemma jsonResponse_effects [simp]: "effects (jsonResponse c d s) = effects s"
  by (simp add: jsonResponse_def json_Marshal_serverResponse_def Write_def WriteHeader_def Let_def)

lemma jsonResponse_wroteHeader [simp]: "w_wroteHeader (jsonResponse c d s)"
  by (simp add: jsonResponse_def json_Marshal_serverResponse_def Write_def WriteHeader_def Let_def)

lemma jsonResponse_status:
  "w_status (jsonResponse c d s) = (if w_wroteHeader s then w_status s else c)"
  by (simp add: jsonResponse_def json_Marshal_serverResponse_def Write_def WriteHeader_def Let_def)

lemma jsonResponse_body:
  "w_body (jsonResponse c d s) =
     (if bodyAllowedForStatus (if w_wroteHeader s then w_status s else c)
      then w_body s @ serverResponse_json d else w_body s)"
  by (simp add: jsonResponse_def json_Marshal_serverResponse_def Write_def WriteHeader_def Let_def)

lemma bodyAllowed_codes [simp]:
  "bodyAllowedForStatus StatusOK"
  "bodyAllowedForStatus StatusBadRequest"
  "bodyAllowedForStatus StatusInternalServerError"
  "\<not> bodyAllowedForStatus StatusNoContent"
  by (simp_all add: bodyAllowedForStatus_def StatusOK_def StatusBadRequest_def
      StatusInternalServerError_def StatusNoContent_def)

text \<open>The storage step: its effects are those of \<open>addRecord\<close>, its answer is 500 or 200.\<close>

lemma addToDatabase_effects:
  "effects (addToDatabase ev t s) =
     effects s @ snd (addRecord ev (storageKey ev t) (storagePayload ev t))"
  by (simp add: addToDatabase_def split: prod.splits option.splits)

lemma addToDatabase_status:
  "w_status (addToDatabase ev t s) =
     (if w_wroteHeader s then w_status s
      else (case fst (addRecord ev (storageKey ev t) (storagePayload ev t)) of
              Some err \<Rightarrow> StatusInternalServerError | None \<Rightarrow> StatusOK))"
  by (simp add: addToDatabase_def jsonResponse_status split: prod.splits option.splits)

lemma addToDatabase_body:
  "w_body (addToDatabase ev t s) =
     (if w_wroteHeader s \<and> \<not> bodyAllowedForStatus (w_status s) then w_body s
      else w_body s @ serverResponse_json
        (case fst (addRecord ev (storageKey ev t) (storagePayload ev t)) of
           Some err \<Rightarrow> \<lparr>Status = ''error'', Message = ''failed to upload data '' @ err\<rparr>
         | None \<Rightarrow> \<lparr>Status = ''ok'', Message = ''thank you''\<rparr>))"
  by (simp add: addToDatabase_def jsonResponse_body split: prod.splits option.splits)

lemma addRecord_events:
  "snd (addRecord ev name payload) =
     EvObjectWrite name payload #
       (case object_Copy ev name payload of Some err \<Rightarrow> [] | None \<Rightarrow> [EvObjectClose name])"
  by (simp add: addRecord_def split: option.splits)

lemma started_proj [simp]:
  "w_wroteHeader started = False" "w_body started = []" "effects started = []"
  by (simp_all add: started_def)

lemma decoded_proj [simp]:
  "w_wroteHeader (decoded r) = False" "w_body (decoded r) = []"
  "effects (decoded r) = [EvReadBody (fst (readRequest r)), EvUnmarshalRequest (fst (readRequest r))]"
  by (simp_all add: decoded_def)

subsection \<open>The four kinds of run\<close>

text \<open>A run that holds a decoded submission is the verification test and what follows it.\<close>

lemma handler_decoded:
  assumes "decodes_to ev r t"
  shows "CORSEnabledFunctionAuth cfg ev r =
     (if mustVerify cfg t then
        (case checkRecaptchaToken cfg ev (ReCaptchaToken t) (xForwardedFor r) of
           (Inl err, es) \<Rightarrow>
             jsonResponse StatusInternalServerError \<lparr>Status = ''error'', Message = err\<rparr>
               (emits es (decoded r))
         | (Inr rr, es) \<Rightarrow>
             addToDatabase ev t
               (if \<not> Success rr then jsonResponse StatusBadRequest botResponse (emits es (decoded r))
                else emits es (decoded r)))
      else addToDatabase ev t (decoded r))"
proof -
  obtain data where rd: "readRequest r = (data, None)"
    using assms by (cases "readRequest r") (simp add: decodes_to_def)
  have dec: "json_Unmarshal_serverRequest ev data = Inr t" and m: "req_Method r \<noteq> MethodOptions"
    using assms rd by (simp_all add: decodes_to_def)
  have rd': "ioutil_ReadAll (io_LimitReader (req_Body r) LIMIT) = (data, None)"
    using rd by (simp add: readRequest_def)
  show ?thesis
    unfolding CORSEnabledFunctionAuth_def
    by (simp add: m rd rd' dec decoded_def started_def xForwardedFor_def botResponse_def Let_def
        split: prod.splits sum.splits)
qed

lemma checkRecaptchaToken_events:
  "filter isPostForm (snd (checkRecaptchaToken cfg ev a b)) =
     [EvPostForm recaptchaServerName (recaptchaForm cfg a b)]"
  by (simp add: checkRecaptchaToken_def Let_def split: sum.splits prod.splits option.splits)

lemma checkRecaptchaToken_no_write:
  "filter isObjectWrite (snd (checkRecaptchaToken cfg ev a b)) = []"
  by (simp add: checkRecaptchaToken_def Let_def split: sum.splits prod.splits option.splits)

lemma addRecord_writes:
  "filter isObjectWrite (snd (addRecord ev name payload)) = [EvObjectWrite name payload]"
  by (simp add: addRecord_def split: option.splits)

lemma addRecord_no_post:
  "filter isPostForm (snd (addRecord ev name payload)) = []"
  by (simp add: addRecord_def split: option.splits)

subsection \<open>The example inputs evaluated\<close>

lemma exampleBody_length: "\<not> LIMIT \<le> length exampleBody"
  by (simp add: exampleBody_def LIMIT_def)

lemma readRequest_example [simp]:
  "readRequest (exampleRequest m exampleBody) = (exampleBody, None)"
  by (simp add: readRequest_def exampleRequest_def io_LimitReader_def ioutil_ReadAll_def
      exampleBody_length)

lemma decodes_example:
  "m \<noteq> MethodOptions \<Longrightarrow>
   decodes_to (exampleEnv h c) (exampleRequest m exampleBody) exampleSubmission"
  by (simp add: decodes_to_def exampleEnv_def) (simp add: exampleRequest_def)

lemma Time_Format_key_example:
  "Time_Format_key \<lparr>unixSec = 1585699200, zoneOffset = 7200\<rparr> = ''2020/04/01/02/00/''"
  by code_simp

lemma Time_Format_key_example_UTC:
  "Time_Format_key (Time_UTC \<lparr>unixSec = 1585699200, zoneOffset = 7200\<rparr>) = ''2020/04/01/00/00/''"
  by code_simp

lemma example_check:
  "checkRecaptchaToken exampleConfig (exampleEnv h c) a b =
     (Inr (exampleVerdict h),
      [EvPostForm recaptchaServerName
         [(''secret'', [''private-key'']), (''remoteip'', [a]), (''response'', [b])],
       EvUnmarshalRecaptcha ''{}''])"
  by (simp add: checkRecaptchaToken_def exampleEnv_def exampleConfig_def recaptchaForm_def
      ioutil_ReadAll_def)

lemma example_payload [simp]:
  "storagePayload (exampleEnv h c) exampleSubmission = ''[1]''"
  by (simp add: storagePayload_def exampleEnv_def exampleSubmission_def)

lemma example_fields [simp]:
  "ReCaptchaToken exampleSubmission = ''tok''" "ID exampleSubmission = ''abc''"
  by (simp_all add: exampleSubmission_def)

lemma example_now [simp]:
  "time_Now (exampleEnv h c) = \<lparr>unixSec = 1585699200, zoneOffset = 7200\<rparr>"
  by (simp add: exampleEnv_def)

subsection \<open>Runs that stop before the verification test\<close>

lemma handler_options:
  "req_Method r = MethodOptions \<Longrightarrow>
   CORSEnabledFunctionAuth cfg ev r =
     \<lparr>w_header =
        [(''Access-Control-Allow-Credentials'', ''true''),
         (''Access-Control-Allow-Headers'', ''Authorization''),
         (''Access-Control-Allow-Methods'', ''POST''),
         (''Access-Control-Allow-Origin'', ''https://screencovid.com''),
         (''Access-Control-Max-Age'', ''3600'')],
      w_wroteHeader = True, w_status = 204,
      w_sentHeader =
        [(''Access-Control-Allow-Credentials'', ''true''),
         (''Access-Control-Allow-Headers'', ''Authorization''),
         (''Access-Control-Allow-Methods'', ''POST''),
         (''Access-Control-Allow-Origin'', ''https://screencovid.com''),
         (''Access-Control-Max-Age'', ''3600'')],
      w_body = [], effects = []\<rparr>"
  by (simp add: CORSEnabledFunctionAuth_def WriteHeader_def Header_Set_def newRun_def
      StatusNoContent_def)

lemma handler_read_failed:
  assumes "req_Method r \<noteq> MethodOptions" and "readRequest r = (data, Some err)"
  shows "CORSEnabledFunctionAuth cfg ev r =
     jsonResponse StatusBadRequest \<lparr>Status = ''error'', Message = ''must supply a payload''\<rparr>
       (emits [EvReadBody data, EvLog err] started)"
proof -
  have rd: "ioutil_ReadAll (io_LimitReader (req_Body r) LIMIT) = (data, Some err)"
    using assms(2) by (simp add: readRequest_def)
  show ?thesis
    unfolding CORSEnabledFunctionAuth_def
    by (simp add: assms(1) rd started_def Let_def)
qed

lemma handler_undecodable:
  assumes "req_Method r \<noteq> MethodOptions" and "readRequest r = (data, None)"
    and "json_Unmarshal_serverRequest ev data = Inl err"
  shows "CORSEnabledFunctionAuth cfg ev r =
     jsonResponse StatusBadRequest \<lparr>Status = ''error'', Message = ''error parsing input''\<rparr>
       (emits [EvReadBody data, EvUnmarshalRequest data, EvLog err] started)"
proof -
  have rd: "ioutil_ReadAll (io_LimitReader (req_Body r) LIMIT) = (data, None)"
    using assms(2) by (simp add: readRequest_def)
  show ?thesis
    unfolding CORSEnabledFunctionAuth_def
    by (simp add: assms(1,3) rd started_def Let_def)
qed

text \<open>
  Every run is of one of four kinds: a preflight, a failed read, an undecodable body, a
  decoded submission.
\<close>

lemma handler_cases:
  obtains
    (options) "req_Method r = MethodOptions"
  | (read_failed) data err where "req_Method r \<noteq> MethodOptions" "readRequest r = (data, Some err)"
  | (undecodable) data err where "req_Method r \<noteq> MethodOptions" "readRequest r = (data, None)"
      "json_Unmarshal_serverRequest ev data = Inl err"
  | (decoded) t where "decodes_to ev r t"
proof (cases "req_Method r = MethodOptions")
  case True
  then show ?thesis by (rule options)
next
  case m: False
  obtain data e where rd: "readRequest r = (data, e)"
    by (cases "readRequest r")
  show ?thesis
  proof (cases e)
    case (Some err)
    with m rd show ?thesis by (auto intro: read_failed)
  next
    case None
    show ?thesis
    proof (cases "json_Unmarshal_serverRequest ev data")
      case (Inl err)
      with m rd None show ?thesis by (auto intro: undecodable)
    next
      case (Inr t)
      with m rd None have "decodes_to ev r t" by (simp add: decodes_to_def)
      then show ?thesis by (rule decoded)
    qed
  qed
qed

lemma decodes_to_unique: "decodes_to ev r t \<Longrightarrow> decodes_to ev r t' \<Longrightarrow> t' = t"
  by (simp add: decodes_to_def)

text \<open>The calls to the verification service and the writes to the bucket, by kind of run.\<close>

lemma handler_decoded_effects:
  assumes "decodes_to ev r t"
  shows "verificationCalls (CORSEnabledFunctionAuth cfg ev r) =
           (if mustVerify cfg t
            then [EvPostForm recaptchaServerName
                    (recaptchaForm cfg (ReCaptchaToken t) (xForwardedFor r))]
            else [])"
proof (cases "mustVerify cfg t")
  case False
  then show ?thesis
    by (simp add: handler_decoded [OF assms] verificationCalls_def addToDatabase_effects
        addRecord_no_post)
next
  case True
  obtain res es where chk:
    "checkRecaptchaToken cfg ev (ReCaptchaToken t) (xForwardedFor r) = (res, es)"
    by (cases "checkRecaptchaToken cfg ev (ReCaptchaToken t) (xForwardedFor r)")
  have es: "filter isPostForm es =
      [EvPostForm recaptchaServerName (recaptchaForm cfg (ReCaptchaToken t) (xForwardedFor r))]"
    using checkRecaptchaToken_events [of cfg ev "ReCaptchaToken t" "xForwardedFor r"]
    by (simp add: chk)
  show ?thesis
  proof (cases res)
    case (Inl err)
    with True show ?thesis
      by (simp add: handler_decoded [OF assms] chk verificationCalls_def es)
  next
    case (Inr rr)
    with True show ?thesis
      by (simp add: handler_decoded [OF assms] chk verificationCalls_def es
          addToDatabase_effects addRecord_no_post)
  qed
qed

lemma handler_early_effects:
  assumes "\<not> (\<exists>t. decodes_to ev r t)"
  shows "verificationCalls (CORSEnabledFunctionAuth cfg ev r) = []"
    and "storageWrites (CORSEnabledFunctionAuth cfg ev r) = []"
proof -
  have "verificationCalls (CORSEnabledFunctionAuth cfg ev r) = [] \<and>
        storageWrites (CORSEnabledFunctionAuth cfg ev r) = []"
  proof (cases rule: handler_cases [where r = r and ev = ev])
    case options
    then show ?thesis
      by (simp add: handler_options verificationCalls_def storageWrites_def)
  next
    case (read_failed data err)
    then show ?thesis
      by (simp add: handler_read_failed verificationCalls_def storageWrites_def)
  next
    case (undecodable data err)
    then show ?thesis
      by (simp add: handler_undecodable verificationCalls_def storageWrites_def)
  next
    case (decoded t)
    with assms show ?thesis by blast
  qed
  then show "verificationCalls (CORSEnabledFunctionAuth cfg ev r) = []"
    and "storageWrites (CORSEnabledFunctionAuth cfg ev r) = []" by simp_all
qed

lemma example_xff [simp]: "xForwardedFor (exampleRequest m b) = ''203.0.113.7''"
  by (simp add: xForwardedFor_def exampleRequest_def)

lemma example_method [simp]: "req_Method (exampleRequest m b) = m"
  by (simp add: exampleRequest_def)

lemma example_mustVerify [simp]: "mustVerify exampleConfig t"
  by (simp add: mustVerify_def exampleConfig_def)

text \<open>The limited read, and where its bytes show among the effects.\<close>

lemma readRequest_take:
  "fst (readRequest r) = take 32768 (rd_content (req_Body r))"
  by (simp add: readRequest_def io_LimitReader_def ioutil_ReadAll_def LIMIT_def)

lemma readRequest_long:
  "32768 < length (rd_content (req_Body r)) \<Longrightarrow>
   readRequest r = (take 32768 (rd_content (req_Body r)), None)"
  by (simp add: readRequest_def io_LimitReader_def ioutil_ReadAll_def LIMIT_def)

lemma handler_effects_prefix:
  assumes "req_Method r \<noteq> MethodOptions"
  shows "\<exists>rest. effects (CORSEnabledFunctionAuth cfg ev r) =
           EvReadBody (fst (readRequest r)) # rest \<and>
           (snd (readRequest r) = None \<longrightarrow>
              (\<exists>rest'. rest = EvUnmarshalRequest (fst (readRequest r)) # rest')) \<and>
           (\<forall>d. EvReadBody d \<notin> set rest \<and>
                (EvUnmarshalRequest d \<in> set rest \<longrightarrow> d = fst (readRequest r)))"
proof (cases rule: handler_cases [where r = r and ev = ev])
  case options
  with assms show ?thesis by simp
next
  case (read_failed data err)
  then show ?thesis by (simp add: handler_read_failed)
next
  case (undecodable data err)
  then show ?thesis by (simp add: handler_undecodable)
next
  case (decoded t)
  have chk: "EvReadBody d \<notin> set (snd (checkRecaptchaToken cfg ev a b)) \<and>
      EvUnmarshalRequest d \<notin> set (snd (checkRecaptchaToken cfg ev a b))" for d a b
    by (simp add: checkRecaptchaToken_def Let_def split: sum.splits prod.splits option.splits)
  have add: "EvReadBody d \<notin> set (snd (addRecord ev n p)) \<and>
      EvUnmarshalRequest d \<notin> set (snd (addRecord ev n p))" for d n p
    by (simp add: addRecord_def split: option.splits)
  have rd: "snd (readRequest r) = None"
    using decoded by (simp add: decodes_to_def)
  show ?thesis
  proof (cases "mustVerify cfg t")
    case False
    then show ?thesis
      using add by (simp add: handler_decoded [OF decoded] addToDatabase_effects)
  next
    case True
    obtain res es where c:
      "checkRecaptchaToken cfg ev (ReCaptchaToken t) (xForwardedFor r) = (res, es)"
      by (cases "checkRecaptchaToken cfg ev (ReCaptchaToken t) (xForwardedFor r)")
    have es: "EvReadBody d \<notin> set es \<and> EvUnmarshalRequest d \<notin> set es" for d
      using chk [of d "ReCaptchaToken t" "xForwardedFor r"] by (simp add: c)
    show ?thesis
    proof (cases res)
      case (Inl err)
      with True show ?thesis
        using es by (simp add: handler_decoded [OF decoded] c)
    next
      case (Inr rr)
      with True show ?thesis
        using es add by (simp add: handler_decoded [OF decoded] c addToDatabase_effects)
    qed
  qed
qed

text \<open>The bytes of two of the fixed envelopes.\<close>

lemma error_parsing_input_json:
  "serverResponse_json \<lparr>Status = ''error'', Message = ''error parsing input''\<rparr> =
     ''{'' @ [dquote] @ ''status'' @ [dquote] @ '':'' @ [dquote] @ ''error'' @ [dquote] @ '','' @
     [dquote] @ ''message'' @ [dquote] @ '':'' @ [dquote] @ ''error parsing input'' @ [dquote] @ ''}''"
  by (simp add: serverResponse_json_def jsonString_def byte_def htmlSafeSet_def dquote_def
      backslash_def)

text \<open>
  A failed write answers 500 with the error's text whenever no response has gone out
  before the storage step: verification skipped, or passed.
\<close>

lemma storage_failure_first_response:
  assumes "decodes_to ev r t"
    and "\<not> mustVerify cfg t \<or>
         (\<exists>rr. fst (checkRecaptchaToken cfg ev (ReCaptchaToken t) (xForwardedFor r)) = Inr rr \<and>
               Success rr)"
    and "fst (addRecord ev (storageKey ev t) (storagePayload ev t)) = Some err"
  shows "w_status (CORSEnabledFunctionAuth cfg ev r) = 500 \<and>
         w_body (CORSEnabledFunctionAuth cfg ev r) =
           serverResponse_json \<lparr>Status = ''error'', Message = ''failed to upload data '' @ err\<rparr>"
proof (cases "mustVerify cfg t")
  case False
  then show ?thesis
    using assms(3)
    by (simp add: handler_decoded [OF assms(1)] addToDatabase_status addToDatabase_body
        StatusInternalServerError_def)
next
  case True
  with assms(2) obtain rr where
    "fst (checkRecaptchaToken cfg ev (ReCaptchaToken t) (xForwardedFor r)) = Inr rr" "Success rr"
    by blast
  then obtain es where
    chk: "checkRecaptchaToken cfg ev (ReCaptchaToken t) (xForwardedFor r) = (Inr rr, es)"
    by (cases "checkRecaptchaToken cfg ev (ReCaptchaToken t) (xForwardedFor r)") simp
  show ?thesis
    using True \<open>Success rr\<close> assms(3)
    by (simp add: handler_decoded [OF assms(1)] chk addToDatabase_status addToDatabase_body
        StatusInternalServerError_def)
qed

lemma thank_you_json:
  "serverResponse_json \<lparr>Status = ''ok'', Message = ''thank you''\<rparr> =
     ''{'' @ [dquote] @ ''status'' @ [dquote] @ '':'' @ [dquote] @ ''ok'' @ [dquote] @ '','' @
     [dquote] @ ''message'' @ [dquote] @ '':'' @ [dquote] @ ''thank you'' @ [dquote] @ ''}''"
  by (simp add: serverResponse_json_def jsonString_def byte_def htmlSafeSet_def dquote_def
      backslash_def)

lemma handler_decoded_writes:
  assumes "decodes_to ev r t"
  shows "storageWrites (CORSEnabledFunctionAuth cfg ev r) = [] \<or>
         storageWrites (CORSEnabledFunctionAuth cfg ev r) =
           [EvObjectWrite (storageKey ev t) (storagePayload ev t)]"
proof (cases "mustVerify cfg t")
  case False
  then show ?thesis
    by (simp add: handler_decoded [OF assms] storageWrites_def addToDatabase_effects
        addRecord_writes)
next
  case True
  obtain res es where chk:
    "checkRecaptchaToken cfg ev (ReCaptchaToken t) (xForwardedFor r) = (res, es)"
    by (cases "checkRecaptchaToken cfg ev (ReCaptchaToken t) (xForwardedFor r)")
  have es: "filter isObjectWrite es = []"
    using checkRecaptchaToken_no_write [of cfg ev "ReCaptchaToken t" "xForwardedFor r"]
    by (simp add: chk)
  show ?thesis
  proof (cases res)
    case (Inl err)
    with True show ?thesis
      by (simp add: handler_decoded [OF assms] chk storageWrites_def es)
  next
    case (Inr rr)
    with True show ?thesis
      by (simp add: handler_decoded [OF assms] chk storageWrites_def es
          addToDatabase_effects addRecord_writes)
  qed
qed

lemma Time_UTC_same: "zoneOffset t = 0 \<Longrightarrow> Time_UTC t = t"
  by (simp add: Time_UTC_def)

subsection \<open>Bodies over the limit\<close>

text \<open>
  The handler sees the body only through the limited read, and the limited read of a body
  longer than the limit is that of its first bytes.
\<close>

lemma exampleBody_length_48: "length exampleBody = 48"
  by (simp add: exampleBody_def)

lemma take_paddedBody: "take 32768 paddedBody = exampleBody @ replicate 32720 (CHR '' '')"
  by (simp add: paddedBody_def exampleBody_length_48)

lemma lenient_decodes:
  "json_Unmarshal_serverRequest lenientEnv (exampleBody @ replicate n (CHR '' '')) =
     Inr exampleSubmission"
  by (simp add: lenientEnv_def list_all_iff)

lemma lenient_rest [simp]:
  "time_Now lenientEnv = \<lparr>unixSec = 1585699200, zoneOffset = 7200\<rparr>"
  "storagePayload lenientEnv exampleSubmission = ''[1]''"
  "addRecord lenientEnv name payload = (None, [EvObjectWrite name payload, EvObjectClose name])"
  by (simp_all add: lenientEnv_def exampleEnv_def storagePayload_def addRecord_def
      exampleSubmission_def)

lemma limited_read_of_long_body:
  "n < length (rd_content b) \<Longrightarrow>
   io_LimitReader b n =
   io_LimitReader \<lparr>rd_content = take n (rd_content b), rd_failure = None,
                   rd_failure_with_data = False\<rparr> n"
  by (simp add: io_LimitReader_def)

lemma handler_depends_on_limited_read:
  assumes "req_Method r' = req_Method r" and "req_Header r' = req_Header r"
    and "io_LimitReader (req_Body r') LIMIT = io_LimitReader (req_Body r) LIMIT"
  shows "CORSEnabledFunctionAuth cfg ev r' = CORSEnabledFunctionAuth cfg ev r"
  unfolding CORSEnabledFunctionAuth_def assms ..

subsection \<open>The claims\<close>

text \<open>
  C1. When the handler holds a decoded submission, the verification test of line 149
  passes (a private key is configured and the token matches no configured bypass) and
  the verification call returns a result whose success flag is false, the response has
  status 400 and its body starts with the fixed envelope \<open>recaptcha thinks your are a
  bot\<close>; the run does not stop there: exactly one write to the bucket follows, under the
  derived key, and the envelope of the storage step is appended to the body.
\<close>

theorem failed_verification_still_stores:
  assumes "decodes_to ev r t"
    and "mustVerify cfg t"
    and "fst (checkRecaptchaToken cfg ev (ReCaptchaToken t) (xForwardedFor r)) = Inr rr"
    and "\<not> Success rr"
  shows "w_status (CORSEnabledFunctionAuth cfg ev r) = 400 \<and>
         w_body (CORSEnabledFunctionAuth cfg ev r) =
           serverResponse_json \<lparr>Status = ''error'', Message = ''recaptcha thinks your are a bot''\<rparr> @
           serverResponse_json
             (case fst (addRecord ev (storageKey ev t) (storagePayload ev t)) of
                Some err \<Rightarrow> \<lparr>Status = ''error'', Message = ''failed to upload data '' @ err\<rparr>
              | None \<Rightarrow> \<lparr>Status = ''ok'', Message = ''thank you''\<rparr>) \<and>
         storageWrites (CORSEnabledFunctionAuth cfg ev r) =
           [EvObjectWrite (Time_Format_key (time_Now ev) @ ID t) (storagePayload ev t)]"
proof -
  obtain es where chk: "checkRecaptchaToken cfg ev (ReCaptchaToken t) (xForwardedFor r) = (Inr rr, es)"
    using assms(3) by (cases "checkRecaptchaToken cfg ev (ReCaptchaToken t) (xForwardedFor r)") simp
  have run: "CORSEnabledFunctionAuth cfg ev r =
      addToDatabase ev t (jsonResponse StatusBadRequest botResponse (emits es (decoded r)))"
    using assms(2,4) by (simp add: handler_decoded [OF assms(1)] chk)
  have es: "filter isObjectWrite es = []"
    using checkRecaptchaToken_no_write [of cfg ev "ReCaptchaToken t" "xForwardedFor r"]
    by (simp add: chk)
  have st: "w_status (CORSEnabledFunctionAuth cfg ev r) = 400"
    by (simp add: run addToDatabase_status jsonResponse_status StatusBadRequest_def)
  have bd: "w_body (CORSEnabledFunctionAuth cfg ev r) =
           serverResponse_json \<lparr>Status = ''error'', Message = ''recaptcha thinks your are a bot''\<rparr> @
           serverResponse_json
             (case fst (addRecord ev (storageKey ev t) (storagePayload ev t)) of
                Some err \<Rightarrow> \<lparr>Status = ''error'', Message = ''failed to upload data '' @ err\<rparr>
              | None \<Rightarrow> \<lparr>Status = ''ok'', Message = ''thank you''\<rparr>)"
    by (simp add: run addToDatabase_body jsonResponse_status jsonResponse_body botResponse_def)
  have wr: "storageWrites (CORSEnabledFunctionAuth cfg ev r) =
           [EvObjectWrite (Time_Format_key (time_Now ev) @ ID t) (storagePayload ev t)]"
    by (simp add: run storageWrites_def addToDatabase_effects es addRecord_writes storageKey_def)
  show ?thesis using st bd wr by simp
qed

text \<open>C1 at the example submission, with a verification service that answers false.\<close>

theorem failed_verification_still_stores_witness:
  "decodes_to (exampleEnv False None) (exampleRequest ''POST'' exampleBody) exampleSubmission \<and>
   mustVerify exampleConfig exampleSubmission \<and>
   fst (checkRecaptchaToken exampleConfig (exampleEnv False None) (ReCaptchaToken exampleSubmission)
          (xForwardedFor (exampleRequest ''POST'' exampleBody))) = Inr (exampleVerdict False) \<and>
   \<not> Success (exampleVerdict False) \<and>
   w_status (CORSEnabledFunctionAuth exampleConfig (exampleEnv False None)
     (exampleRequest ''POST'' exampleBody)) = 400 \<and>
   storageWrites (CORSEnabledFunctionAuth exampleConfig (exampleEnv False None)
     (exampleRequest ''POST'' exampleBody)) = [EvObjectWrite ''2020/04/01/02/00/abc'' ''[1]'']"
proof -
  have d: "decodes_to (exampleEnv False None) (exampleRequest ''POST'' exampleBody) exampleSubmission"
    by (rule decodes_example) (simp add: MethodOptions_def)
  have v: "mustVerify exampleConfig exampleSubmission"
    by (simp add: mustVerify_def exampleConfig_def)
  have c: "fst (checkRecaptchaToken exampleConfig (exampleEnv False None)
      (ReCaptchaToken exampleSubmission) (xForwardedFor (exampleRequest ''POST'' exampleBody))) =
      Inr (exampleVerdict False)"
    by (simp add: example_check)
  have f: "\<not> Success (exampleVerdict False)"
    by (simp add: exampleVerdict_def)
  show ?thesis
    using failed_verification_still_stores [OF d v c f] d v c f
    by (simp add: Time_Format_key_example)
qed

text \<open>
  C2. Every call to the verification service made by a run of the handler posts, to the
  fixed URL, the form in which the key \<open>remoteip\<close> carries the token of the decoded
  submission and the key \<open>response\<close> carries the value of the \<open>X-Forwarded-For\<close>
  request header; and \<open>checkRecaptchaToken\<close> itself sends its first parameter under
  \<open>remoteip\<close> and its second under \<open>response\<close>.
\<close>

theorem verification_arguments_swapped:
  "(\<forall>e \<in> set (verificationCalls (CORSEnabledFunctionAuth cfg ev r)).
      \<exists>t. decodes_to ev r t \<and>
        e = EvPostForm recaptchaServerName
              [(''secret'', [recaptchaPrivateKey cfg]),
               (''remoteip'', [ReCaptchaToken t]),
               (''response'', [Header_Get (req_Header r) ''X-Forwarded-For''])]) \<and>
   filter isPostForm (snd (checkRecaptchaToken cfg ev remoteip response)) =
     [EvPostForm recaptchaServerName
        [(''secret'', [recaptchaPrivateKey cfg]), (''remoteip'', [remoteip]),
         (''response'', [response])]]"
proof
  show "\<forall>e \<in> set (verificationCalls (CORSEnabledFunctionAuth cfg ev r)).
      \<exists>t. decodes_to ev r t \<and>
        e = EvPostForm recaptchaServerName
              [(''secret'', [recaptchaPrivateKey cfg]),
               (''remoteip'', [ReCaptchaToken t]),
               (''response'', [Header_Get (req_Header r) ''X-Forwarded-For''])]"
  proof (cases "\<exists>t. decodes_to ev r t")
    case False
    then show ?thesis by (simp add: handler_early_effects)
  next
    case True
    then obtain t where t: "decodes_to ev r t" ..
    show ?thesis
      using t by (auto simp: handler_decoded_effects [OF t] recaptchaForm_def xForwardedFor_def
          simp del: Header_Get.simps split: if_splits)
  qed
next
  show "filter isPostForm (snd (checkRecaptchaToken cfg ev remoteip response)) =
     [EvPostForm recaptchaServerName
        [(''secret'', [recaptchaPrivateKey cfg]), (''remoteip'', [remoteip]),
         (''response'', [response])]]"
    by (simp add: checkRecaptchaToken_events recaptchaForm_def)
qed

text \<open>C2 at the example submission: the one call, with its form.\<close>

theorem verification_arguments_swapped_witness:
  "verificationCalls (CORSEnabledFunctionAuth exampleConfig (exampleEnv True None)
      (exampleRequest ''POST'' exampleBody)) =
     [EvPostForm ''https://www.google.com/recaptcha/api/siteverify''
        [(''secret'', [''private-key'']), (''remoteip'', [''tok'']),
         (''response'', [''203.0.113.7''])]] \<and>
   filter isPostForm (snd (checkRecaptchaToken exampleConfig (exampleEnv True None)
      ''tok'' ''203.0.113.7'')) =
     [EvPostForm ''https://www.google.com/recaptcha/api/siteverify''
        [(''secret'', [''private-key'']), (''remoteip'', [''tok'']),
         (''response'', [''203.0.113.7''])]]"
proof -
  let ?S = "CORSEnabledFunctionAuth exampleConfig (exampleEnv True None)
      (exampleRequest ''POST'' exampleBody)"
  have d: "decodes_to (exampleEnv True None) (exampleRequest ''POST'' exampleBody) exampleSubmission"
    by (rule decodes_example) (simp add: MethodOptions_def)
  have calls: "verificationCalls ?S =
      [EvPostForm recaptchaServerName
         (recaptchaForm exampleConfig ''tok'' ''203.0.113.7'')]"
    by (simp add: handler_decoded_effects [OF d])
  have "\<forall>e \<in> set (verificationCalls ?S).
      \<exists>t. decodes_to (exampleEnv True None) (exampleRequest ''POST'' exampleBody) t \<and>
        e = EvPostForm recaptchaServerName
              [(''secret'', [recaptchaPrivateKey exampleConfig]),
               (''remoteip'', [ReCaptchaToken t]),
               (''response'', [Header_Get (req_Header (exampleRequest ''POST'' exampleBody))
                  ''X-Forwarded-For''])]"
    and snd: "filter isPostForm (snd (checkRecaptchaToken exampleConfig (exampleEnv True None)
      ''tok'' ''203.0.113.7'')) =
     [EvPostForm recaptchaServerName
        [(''secret'', [recaptchaPrivateKey exampleConfig]), (''remoteip'', [''tok'']),
         (''response'', [''203.0.113.7''])]]"
    using verification_arguments_swapped [of exampleConfig "exampleEnv True None"
        "exampleRequest ''POST'' exampleBody" "''tok''" "''203.0.113.7''"]
    by blast+
  then obtain t where
    "decodes_to (exampleEnv True None) (exampleRequest ''POST'' exampleBody) t"
    and e: "EvPostForm recaptchaServerName (recaptchaForm exampleConfig ''tok'' ''203.0.113.7'') =
        EvPostForm recaptchaServerName
              [(''secret'', [recaptchaPrivateKey exampleConfig]),
               (''remoteip'', [ReCaptchaToken t]),
               (''response'', [Header_Get (req_Header (exampleRequest ''POST'' exampleBody))
                  ''X-Forwarded-For''])]"
    by (auto simp: calls)
  then have "t = exampleSubmission"
    using d by (simp add: decodes_to_unique)
  with e calls snd show ?thesis
    by (simp add: recaptchaServerName_def exampleConfig_def exampleRequest_def)
qed

text \<open>
  C3 as stated fails: a POST request whose body does not decode, under a configuration
  with a private key and no bypass, makes no verification call, and no write to the
  bucket follows either.
\<close>

theorem verification_skipped_on_undecodable_body:
  "req_Method (exampleRequest ''POST'' ''not json'') \<noteq> MethodOptions \<and>
   recaptchaPrivateKey exampleConfig \<noteq> [] \<and>
   recaptchaBypass exampleConfig = [] \<and>
   verificationCalls (CORSEnabledFunctionAuth exampleConfig (exampleEnv True None)
      (exampleRequest ''POST'' ''not json'')) = [] \<and>
   storageWrites (CORSEnabledFunctionAuth exampleConfig (exampleEnv True None)
      (exampleRequest ''POST'' ''not json'')) = []"
proof -
  have m: "req_Method (exampleRequest ''POST'' ''not json'') \<noteq> MethodOptions"
    by (simp add: MethodOptions_def)
  have rd: "readRequest (exampleRequest ''POST'' ''not json'') = (''not json'', None)"
    by (simp add: readRequest_def exampleRequest_def io_LimitReader_def ioutil_ReadAll_def
        LIMIT_def)
  have dec: "json_Unmarshal_serverRequest (exampleEnv True None) ''not json'' =
      Inl ''invalid character''"
    by (simp add: exampleEnv_def exampleBody_def)
  show ?thesis
    using m
    by (simp add: handler_undecodable [OF m rd dec] verificationCalls_def storageWrites_def
        exampleConfig_def)
qed

text \<open>
  C3, amended. For every request other than OPTIONS whose body is read without error and
  decodes to a submission, the verification client is called if and only if a private
  key is configured and it is not the case that a bypass is configured and equals the
  submitted token; when it is not called, the effects of the run are the read, the
  decoding, and then at once those of the storage step.
\<close>

theorem verification_iff_key_and_no_bypass:
  assumes "decodes_to ev r t"
  shows "(verificationCalls (CORSEnabledFunctionAuth cfg ev r) \<noteq> []) =
           (recaptchaPrivateKey cfg \<noteq> [] \<and>
            \<not> (recaptchaBypass cfg \<noteq> [] \<and> ReCaptchaToken t = recaptchaBypass cfg)) \<and>
         (verificationCalls (CORSEnabledFunctionAuth cfg ev r) = [] \<longrightarrow>
            effects (CORSEnabledFunctionAuth cfg ev r) =
              [EvReadBody (fst (readRequest r)), EvUnmarshalRequest (fst (readRequest r))] @
              snd (addRecord ev (Time_Format_key (time_Now ev) @ ID t) (storagePayload ev t)))"
proof (cases "mustVerify cfg t")
  case True
  then show ?thesis
    by (auto simp: handler_decoded_effects [OF assms] mustVerify_def)
next
  case False
  then have "effects (CORSEnabledFunctionAuth cfg ev r) =
      [EvReadBody (fst (readRequest r)), EvUnmarshalRequest (fst (readRequest r))] @
      snd (addRecord ev (Time_Format_key (time_Now ev) @ ID t) (storagePayload ev t))"
    by (simp add: handler_decoded [OF assms] addToDatabase_effects storageKey_def)
  with False show ?thesis
    by (auto simp: handler_decoded_effects [OF assms] mustVerify_def)
qed

text \<open>
  C3 amended, at the example submission: called with no bypass configured, skipped when
  the bypass equals the token, and then the write follows the decoding.
\<close>

theorem verification_iff_key_and_no_bypass_witness:
  "decodes_to (exampleEnv True None) (exampleRequest ''POST'' exampleBody) exampleSubmission \<and>
   verificationCalls (CORSEnabledFunctionAuth exampleConfig (exampleEnv True None)
      (exampleRequest ''POST'' exampleBody)) \<noteq> [] \<and>
   verificationCalls (CORSEnabledFunctionAuth bypassConfig (exampleEnv True None)
      (exampleRequest ''POST'' exampleBody)) = [] \<and>
   effects (CORSEnabledFunctionAuth bypassConfig (exampleEnv True None)
      (exampleRequest ''POST'' exampleBody)) =
     [EvReadBody exampleBody, EvUnmarshalRequest exampleBody,
      EvObjectWrite ''2020/04/01/02/00/abc'' ''[1]'', EvObjectClose ''2020/04/01/02/00/abc'']"
proof -
  have d: "decodes_to (exampleEnv True None) (exampleRequest ''POST'' exampleBody) exampleSubmission"
    by (rule decodes_example) (simp add: MethodOptions_def)
  have a: "addRecord (exampleEnv True None) ''2020/04/01/02/00/abc'' ''[1]'' =
      (None, [EvObjectWrite ''2020/04/01/02/00/abc'' ''[1]'', EvObjectClose ''2020/04/01/02/00/abc''])"
    by (simp add: addRecord_def exampleEnv_def)
  show ?thesis
    using verification_iff_key_and_no_bypass [OF d, of exampleConfig]
      verification_iff_key_and_no_bypass [OF d, of bypassConfig] d
    by (simp add: exampleConfig_def bypassConfig_def Time_Format_key_example a)
qed

text \<open>
  C4. In every run, the bytes read from the request body and the bytes given to the
  decoder of the submission are the first 32768 bytes of the body, so at most 32768
  bytes. A body longer than that is not refused and its excess changes nothing: the
  whole run, response and effects, is the run on the request whose body is exactly the
  first 32768 bytes; on a request other than OPTIONS it starts by reading those bytes
  and decoding them.
\<close>

theorem body_truncated_to_limit:
  "(\<forall>d. EvReadBody d \<in> set (effects (CORSEnabledFunctionAuth cfg ev r)) \<longrightarrow>
        length d \<le> 32768 \<and> d = take 32768 (rd_content (req_Body r))) \<and>
   (\<forall>d. EvUnmarshalRequest d \<in> set (effects (CORSEnabledFunctionAuth cfg ev r)) \<longrightarrow>
        length d \<le> 32768 \<and> d = take 32768 (rd_content (req_Body r))) \<and>
   (32768 < length (rd_content (req_Body r)) \<longrightarrow>
      CORSEnabledFunctionAuth cfg ev r =
        CORSEnabledFunctionAuth cfg ev
          (r\<lparr>req_Body := \<lparr>rd_content = take 32768 (rd_content (req_Body r)),
                          rd_failure = None, rd_failure_with_data = False\<rparr>\<rparr>) \<and>
      length (take 32768 (rd_content (req_Body r))) = 32768) \<and>
   (req_Method r \<noteq> MethodOptions \<and> 32768 < length (rd_content (req_Body r)) \<longrightarrow>
      take 2 (effects (CORSEnabledFunctionAuth cfg ev r)) =
        [EvReadBody (take 32768 (rd_content (req_Body r))),
         EvUnmarshalRequest (take 32768 (rd_content (req_Body r)))])"
proof -
  have same: "32768 < length (rd_content (req_Body r)) \<longrightarrow>
      CORSEnabledFunctionAuth cfg ev r =
        CORSEnabledFunctionAuth cfg ev
          (r\<lparr>req_Body := \<lparr>rd_content = take 32768 (rd_content (req_Body r)),
                          rd_failure = None, rd_failure_with_data = False\<rparr>\<rparr>) \<and>
      length (take 32768 (rd_content (req_Body r))) = 32768"
  proof
    assume long: "32768 < length (rd_content (req_Body r))"
    let ?r' = "r\<lparr>req_Body := \<lparr>rd_content = take 32768 (rd_content (req_Body r)),
                          rd_failure = None, rd_failure_with_data = False\<rparr>\<rparr>"
    have "io_LimitReader (req_Body ?r') LIMIT = io_LimitReader (req_Body r) LIMIT"
      using long limited_read_of_long_body [of LIMIT "req_Body r"] by (simp add: LIMIT_def)
    then have "CORSEnabledFunctionAuth cfg ev ?r' = CORSEnabledFunctionAuth cfg ev r"
      by (intro handler_depends_on_limited_read) simp_all
    with long show "CORSEnabledFunctionAuth cfg ev r = CORSEnabledFunctionAuth cfg ev ?r' \<and>
      length (take 32768 (rd_content (req_Body r))) = 32768"
      by simp
  qed
  have labels: "(\<forall>d. EvReadBody d \<in> set (effects (CORSEnabledFunctionAuth cfg ev r)) \<longrightarrow>
        length d \<le> 32768 \<and> d = take 32768 (rd_content (req_Body r))) \<and>
   (\<forall>d. EvUnmarshalRequest d \<in> set (effects (CORSEnabledFunctionAuth cfg ev r)) \<longrightarrow>
        length d \<le> 32768 \<and> d = take 32768 (rd_content (req_Body r))) \<and>
   (req_Method r \<noteq> MethodOptions \<and> 32768 < length (rd_content (req_Body r)) \<longrightarrow>
      take 2 (effects (CORSEnabledFunctionAuth cfg ev r)) =
        [EvReadBody (take 32768 (rd_content (req_Body r))),
         EvUnmarshalRequest (take 32768 (rd_content (req_Body r)))])"
  proof (cases "req_Method r = MethodOptions")
    case True
    then show ?thesis by (simp add: handler_options)
  next
    case False
    obtain rest where eff: "effects (CORSEnabledFunctionAuth cfg ev r) =
          EvReadBody (fst (readRequest r)) # rest"
      and un: "snd (readRequest r) = None \<longrightarrow>
          (\<exists>rest'. rest = EvUnmarshalRequest (fst (readRequest r)) # rest')"
      and rest: "\<forall>d. EvReadBody d \<notin> set rest \<and>
          (EvUnmarshalRequest d \<in> set rest \<longrightarrow> d = fst (readRequest r))"
      using handler_effects_prefix [OF False, of cfg ev] by (elim exE conjE) (rule that)
    have len: "length (take 32768 (rd_content (req_Body r))) \<le> 32768"
      by simp
    have a: "\<forall>d. EvReadBody d \<in> set (effects (CORSEnabledFunctionAuth cfg ev r)) \<longrightarrow>
          length d \<le> 32768 \<and> d = take 32768 (rd_content (req_Body r))"
      using rest len by (auto simp: eff readRequest_take)
    have b: "\<forall>d. EvUnmarshalRequest d \<in> set (effects (CORSEnabledFunctionAuth cfg ev r)) \<longrightarrow>
          length d \<le> 32768 \<and> d = take 32768 (rd_content (req_Body r))"
      using rest len by (auto simp: eff readRequest_take)
    have c: "32768 < length (rd_content (req_Body r)) \<longrightarrow>
        take 2 (effects (CORSEnabledFunctionAuth cfg ev r)) =
          [EvReadBody (take 32768 (rd_content (req_Body r))),
           EvUnmarshalRequest (take 32768 (rd_content (req_Body r)))]"
    proof
      assume long: "32768 < length (rd_content (req_Body r))"
      then have "snd (readRequest r) = None"
        by (simp add: readRequest_long)
      with un obtain rest' where "rest = EvUnmarshalRequest (fst (readRequest r)) # rest'"
        by blast
      with long show "take 2 (effects (CORSEnabledFunctionAuth cfg ev r)) =
          [EvReadBody (take 32768 (rd_content (req_Body r))),
           EvUnmarshalRequest (take 32768 (rd_content (req_Body r)))]"
        by (simp add: eff readRequest_take numeral_2_eq_2)
    qed
    from a b c show ?thesis by blast
  qed
  from labels same show ?thesis by blast
qed

text \<open>
  C4 at a body of 40048 bytes whose first 32768 bytes decode: the run is that of the
  truncated body, the submission is stored and the answer is 200.
\<close>

theorem body_truncated_to_limit_witness:
  "32768 < length (rd_content (req_Body (exampleRequest ''POST'' paddedBody))) \<and>
   req_Method (exampleRequest ''POST'' paddedBody) \<noteq> MethodOptions \<and>
   length paddedBody = 40048 \<and>
   take 32768 paddedBody = exampleBody @ replicate 32720 (CHR '' '') \<and>
   CORSEnabledFunctionAuth openConfig lenientEnv (exampleRequest ''POST'' paddedBody) =
     CORSEnabledFunctionAuth openConfig lenientEnv
       (exampleRequest ''POST'' (exampleBody @ replicate 32720 (CHR '' ''))) \<and>
   w_status (CORSEnabledFunctionAuth openConfig lenientEnv
       (exampleRequest ''POST'' paddedBody)) = 200 \<and>
   w_body (CORSEnabledFunctionAuth openConfig lenientEnv
       (exampleRequest ''POST'' paddedBody)) =
     ''{'' @ [dquote] @ ''status'' @ [dquote] @ '':'' @ [dquote] @ ''ok'' @ [dquote] @ '','' @
     [dquote] @ ''message'' @ [dquote] @ '':'' @ [dquote] @ ''thank you'' @ [dquote] @ ''}'' \<and>
   effects (CORSEnabledFunctionAuth openConfig lenientEnv
       (exampleRequest ''POST'' paddedBody)) =
     [EvReadBody (exampleBody @ replicate 32720 (CHR '' '')),
      EvUnmarshalRequest (exampleBody @ replicate 32720 (CHR '' '')),
      EvObjectWrite ''2020/04/01/02/00/abc'' ''[1]'', EvObjectClose ''2020/04/01/02/00/abc'']"
proof -
  let ?r = "exampleRequest ''POST'' paddedBody"
  let ?t = "exampleBody @ replicate 32720 (CHR '' '')"
  have l: "32768 < length (rd_content (req_Body ?r))"
    by (simp add: exampleRequest_def paddedBody_def)
  have m: "req_Method ?r \<noteq> MethodOptions"
    by (simp add: MethodOptions_def)
  have n: "length paddedBody = 40048"
    by (simp add: paddedBody_def exampleBody_length_48)
  have c: "rd_content (req_Body ?r) = paddedBody"
    by (simp add: exampleRequest_def)
  have r': "?r\<lparr>req_Body := \<lparr>rd_content = ?t, rd_failure = None,
        rd_failure_with_data = False\<rparr>\<rparr> = exampleRequest ''POST'' ?t"
    by (simp add: exampleRequest_def)
  have "CORSEnabledFunctionAuth openConfig lenientEnv ?r =
      CORSEnabledFunctionAuth openConfig lenientEnv
        (?r\<lparr>req_Body := \<lparr>rd_content = take 32768 (rd_content (req_Body ?r)),
                         rd_failure = None, rd_failure_with_data = False\<rparr>\<rparr>)"
    using body_truncated_to_limit [of openConfig lenientEnv ?r] l by blast
  then have same: "CORSEnabledFunctionAuth openConfig lenientEnv ?r =
      CORSEnabledFunctionAuth openConfig lenientEnv (exampleRequest ''POST'' ?t)"
    by (simp only: c take_paddedBody r')
  have rd: "readRequest ?r = (?t, None)"
    using l by (simp add: readRequest_long c take_paddedBody)
  have d: "decodes_to lenientEnv ?r exampleSubmission"
    using m by (simp add: decodes_to_def rd lenient_decodes)
  have v: "\<not> mustVerify openConfig exampleSubmission"
    by (simp add: mustVerify_def openConfig_def)
  have run: "CORSEnabledFunctionAuth openConfig lenientEnv ?r =
      addToDatabase lenientEnv exampleSubmission (decoded ?r)"
    using v by (simp add: handler_decoded [OF d])
  have k: "storageKey lenientEnv exampleSubmission = ''2020/04/01/02/00/abc''"
    by (simp add: storageKey_def Time_Format_key_example)
  have st: "w_status (CORSEnabledFunctionAuth openConfig lenientEnv ?r) = 200"
    by (simp add: run addToDatabase_status k StatusOK_def)
  have bd: "w_body (CORSEnabledFunctionAuth openConfig lenientEnv ?r) =
     ''{'' @ [dquote] @ ''status'' @ [dquote] @ '':'' @ [dquote] @ ''ok'' @ [dquote] @ '','' @
     [dquote] @ ''message'' @ [dquote] @ '':'' @ [dquote] @ ''thank you'' @ [dquote] @ ''}''"
    by (simp only: thank_you_json [symmetric]) (simp add: run addToDatabase_body k)
  have ef: "effects (CORSEnabledFunctionAuth openConfig lenientEnv ?r) =
     [EvReadBody ?t, EvUnmarshalRequest ?t,
      EvObjectWrite ''2020/04/01/02/00/abc'' ''[1]'', EvObjectClose ''2020/04/01/02/00/abc'']"
    by (simp add: run addToDatabase_effects k rd)
  from l m n take_paddedBody same st bd ef show ?thesis
    by (intro conjI)
qed

text \<open>
  C5. For every request other than OPTIONS whose body, as read under the limit, does not
  decode, whatever the configuration: the response has status 400 and the body is the
  envelope with the message \<open>error parsing input\<close>; the only effects are the read, the
  decoding and the log line, so there is no verification call and no write to the bucket.
\<close>

theorem undecodable_body_rejected:
  assumes "req_Method r \<noteq> MethodOptions"
    and "readRequest r = (data, None)"
    and "json_Unmarshal_serverRequest ev data = Inl err"
  shows "w_status (CORSEnabledFunctionAuth cfg ev r) = 400 \<and>
         w_body (CORSEnabledFunctionAuth cfg ev r) =
           serverResponse_json \<lparr>Status = ''error'', Message = ''error parsing input''\<rparr> \<and>
         effects (CORSEnabledFunctionAuth cfg ev r) =
           [EvReadBody data, EvUnmarshalRequest data, EvLog err] \<and>
         verificationCalls (CORSEnabledFunctionAuth cfg ev r) = [] \<and>
         storageWrites (CORSEnabledFunctionAuth cfg ev r) = []"
  by (simp add: handler_undecodable [OF assms] jsonResponse_status jsonResponse_body
      verificationCalls_def storageWrites_def StatusBadRequest_def bodyAllowedForStatus_def)

text \<open>C5 at a body that is not JSON, with the bytes of the response.\<close>

theorem undecodable_body_rejected_witness:
  "req_Method (exampleRequest ''POST'' ''not json'') \<noteq> MethodOptions \<and>
   readRequest (exampleRequest ''POST'' ''not json'') = (''not json'', None) \<and>
   json_Unmarshal_serverRequest (exampleEnv True None) ''not json'' = Inl ''invalid character'' \<and>
   w_status (CORSEnabledFunctionAuth exampleConfig (exampleEnv True None)
      (exampleRequest ''POST'' ''not json'')) = 400 \<and>
   w_body (CORSEnabledFunctionAuth exampleConfig (exampleEnv True None)
      (exampleRequest ''POST'' ''not json'')) =
     ''{'' @ [dquote] @ ''status'' @ [dquote] @ '':'' @ [dquote] @ ''error'' @ [dquote] @ '','' @
     [dquote] @ ''message'' @ [dquote] @ '':'' @ [dquote] @ ''error parsing input'' @ [dquote] @ ''}'' \<and>
   effects (CORSEnabledFunctionAuth exampleConfig (exampleEnv True None)
      (exampleRequest ''POST'' ''not json'')) =
     [EvReadBody ''not json'', EvUnmarshalRequest ''not json'', EvLog ''invalid character'']"
proof -
  have m: "req_Method (exampleRequest ''POST'' ''not json'') \<noteq> MethodOptions"
    by (simp add: MethodOptions_def)
  have rd: "readRequest (exampleRequest ''POST'' ''not json'') = (''not json'', None)"
    by (simp add: readRequest_def exampleRequest_def io_LimitReader_def ioutil_ReadAll_def
        LIMIT_def)
  have dec: "json_Unmarshal_serverRequest (exampleEnv True None) ''not json'' =
      Inl ''invalid character''"
    by (simp add: exampleEnv_def exampleBody_def)
  show ?thesis
    using undecodable_body_rejected [OF m rd dec, of exampleConfig] m rd dec
    by (simp only: error_parsing_input_json) simp
qed

text \<open>
  C6 fails on the code. At the example submission, with a verification service that
  answers false and a bucket whose copy fails: the write is attempted and fails, the
  envelope with the error's text is written, but the status of the response is the 400
  sent by the first \<open>jsonResponse\<close> (line 156 has no return), not 500, and the body holds
  both envelopes one after the other.
\<close>

theorem storage_failure_after_failed_verification:
  "fst (addRecord (exampleEnv False (Some ''context deadline exceeded''))
     ''2020/04/01/02/00/abc'' ''[1]'') = Some ''context deadline exceeded'' \<and>
   storageWrites (CORSEnabledFunctionAuth exampleConfig
     (exampleEnv False (Some ''context deadline exceeded''))
     (exampleRequest ''POST'' exampleBody)) = [EvObjectWrite ''2020/04/01/02/00/abc'' ''[1]''] \<and>
   w_status (CORSEnabledFunctionAuth exampleConfig
     (exampleEnv False (Some ''context deadline exceeded''))
     (exampleRequest ''POST'' exampleBody)) = 400 \<and>
   w_status (CORSEnabledFunctionAuth exampleConfig
     (exampleEnv False (Some ''context deadline exceeded''))
     (exampleRequest ''POST'' exampleBody)) \<noteq> 500 \<and>
   w_body (CORSEnabledFunctionAuth exampleConfig
     (exampleEnv False (Some ''context deadline exceeded''))
     (exampleRequest ''POST'' exampleBody)) =
     serverResponse_json \<lparr>Status = ''error'', Message = ''recaptcha thinks your are a bot''\<rparr> @
     serverResponse_json
       \<lparr>Status = ''error'', Message = ''failed to upload data context deadline exceeded''\<rparr>"
proof -
  let ?ev = "exampleEnv False (Some ''context deadline exceeded'')"
  have d: "decodes_to ?ev (exampleRequest ''POST'' exampleBody) exampleSubmission"
    by (rule decodes_example) (simp add: MethodOptions_def)
  have a: "addRecord ?ev ''2020/04/01/02/00/abc'' ''[1]'' =
      (Some ''context deadline exceeded'', [EvObjectWrite ''2020/04/01/02/00/abc'' ''[1]''])"
    by (simp add: addRecord_def exampleEnv_def)
  have k: "storageKey ?ev exampleSubmission = ''2020/04/01/02/00/abc''"
    by (simp add: storageKey_def Time_Format_key_example)
  have run: "CORSEnabledFunctionAuth exampleConfig ?ev (exampleRequest ''POST'' exampleBody) =
      addToDatabase ?ev exampleSubmission
        (jsonResponse StatusBadRequest botResponse
          (emits (snd (checkRecaptchaToken exampleConfig ?ev ''tok'' ''203.0.113.7''))
            (decoded (exampleRequest ''POST'' exampleBody))))"
    by (simp add: handler_decoded [OF d] example_check exampleVerdict_def)
  show ?thesis
    by (simp add: run a k addToDatabase_status addToDatabase_body addToDatabase_effects
        jsonResponse_status jsonResponse_body storageWrites_def example_check
        StatusBadRequest_def botResponse_def bodyAllowedForStatus_def)
qed

text \<open>
  C7. For every decoded submission handled with no private key configured, the run makes
  exactly one write to the bucket and no verification call; and when that write
  succeeds the response has status 200 and its body is the envelope with status \<open>ok\<close> and
  message \<open>thank you\<close>.
\<close>

theorem unverified_submission_stored_once:
  assumes "decodes_to ev r t"
    and "recaptchaPrivateKey cfg = []"
  shows "storageWrites (CORSEnabledFunctionAuth cfg ev r) =
           [EvObjectWrite (Time_Format_key (time_Now ev) @ ID t) (storagePayload ev t)] \<and>
         length (storageWrites (CORSEnabledFunctionAuth cfg ev r)) = 1 \<and>
         verificationCalls (CORSEnabledFunctionAuth cfg ev r) = [] \<and>
         (fst (addRecord ev (Time_Format_key (time_Now ev) @ ID t) (storagePayload ev t)) = None \<longrightarrow>
            w_status (CORSEnabledFunctionAuth cfg ev r) = 200 \<and>
            w_body (CORSEnabledFunctionAuth cfg ev r) =
              serverResponse_json \<lparr>Status = ''ok'', Message = ''thank you''\<rparr>)"
proof -
  have v: "\<not> mustVerify cfg t"
    using assms(2) by (simp add: mustVerify_def)
  have run: "CORSEnabledFunctionAuth cfg ev r = addToDatabase ev t (decoded r)"
    using v by (simp add: handler_decoded [OF assms(1)])
  have w: "storageWrites (CORSEnabledFunctionAuth cfg ev r) =
      [EvObjectWrite (Time_Format_key (time_Now ev) @ ID t) (storagePayload ev t)]"
    by (simp add: run storageWrites_def addToDatabase_effects addRecord_writes storageKey_def)
  have c: "verificationCalls (CORSEnabledFunctionAuth cfg ev r) = []"
    using v by (simp add: handler_decoded_effects [OF assms(1)])
  have ok: "fst (addRecord ev (Time_Format_key (time_Now ev) @ ID t) (storagePayload ev t)) = None \<longrightarrow>
      w_status (CORSEnabledFunctionAuth cfg ev r) = 200 \<and>
      w_body (CORSEnabledFunctionAuth cfg ev r) =
        serverResponse_json \<lparr>Status = ''ok'', Message = ''thank you''\<rparr>"
    by (simp add: run addToDatabase_status addToDatabase_body storageKey_def StatusOK_def)
  from w c ok show ?thesis by simp
qed

text \<open>C7 at the example submission, with the bytes of the response.\<close>

theorem unverified_submission_stored_once_witness:
  "decodes_to (exampleEnv True None) (exampleRequest ''POST'' exampleBody) exampleSubmission \<and>
   recaptchaPrivateKey openConfig = [] \<and>
   fst (addRecord (exampleEnv True None) ''2020/04/01/02/00/abc'' ''[1]'') = None \<and>
   storageWrites (CORSEnabledFunctionAuth openConfig (exampleEnv True None)
      (exampleRequest ''POST'' exampleBody)) = [EvObjectWrite ''2020/04/01/02/00/abc'' ''[1]''] \<and>
   w_status (CORSEnabledFunctionAuth openConfig (exampleEnv True None)
      (exampleRequest ''POST'' exampleBody)) = 200 \<and>
   w_body (CORSEnabledFunctionAuth openConfig (exampleEnv True None)
      (exampleRequest ''POST'' exampleBody)) =
     ''{'' @ [dquote] @ ''status'' @ [dquote] @ '':'' @ [dquote] @ ''ok'' @ [dquote] @ '','' @
     [dquote] @ ''message'' @ [dquote] @ '':'' @ [dquote] @ ''thank you'' @ [dquote] @ ''}''"
proof -
  have d: "decodes_to (exampleEnv True None) (exampleRequest ''POST'' exampleBody) exampleSubmission"
    by (rule decodes_example) (simp add: MethodOptions_def)
  have k: "recaptchaPrivateKey openConfig = []"
    by (simp add: openConfig_def)
  have a: "fst (addRecord (exampleEnv True None) ''2020/04/01/02/00/abc'' ''[1]'') = None"
    by (simp add: addRecord_def exampleEnv_def)
  show ?thesis
    using unverified_submission_stored_once [OF d k] d k a
    by (simp only: thank_you_json) (simp add: Time_Format_key_example)
qed

text \<open>
  C8 as stated fails: \<open>time.Now()\<close> is formatted in the zone it carries, the process's
  local one. At 2020-04-01 00:00 UTC in a zone two hours east the key written is
  2020/04/01/02/00/abc, while the UTC time gives 2020/04/01/00/00/abc.
\<close>

theorem storage_key_is_utc_counterexample:
  "storageWrites (CORSEnabledFunctionAuth openConfig (exampleEnv True None)
      (exampleRequest ''POST'' exampleBody)) = [EvObjectWrite ''2020/04/01/02/00/abc'' ''[1]''] \<and>
   Time_Format_key (Time_UTC (time_Now (exampleEnv True None))) @ ID exampleSubmission =
     ''2020/04/01/00/00/abc'' \<and>
   storageWrites (CORSEnabledFunctionAuth openConfig (exampleEnv True None)
      (exampleRequest ''POST'' exampleBody)) \<noteq>
     [EvObjectWrite
        (Time_Format_key (Time_UTC (time_Now (exampleEnv True None))) @ ID exampleSubmission)
        ''[1]'']"
proof -
  have d: "decodes_to (exampleEnv True None) (exampleRequest ''POST'' exampleBody) exampleSubmission"
    by (rule decodes_example) (simp add: MethodOptions_def)
  have v: "\<not> mustVerify openConfig exampleSubmission"
    by (simp add: mustVerify_def openConfig_def)
  have w: "storageWrites (CORSEnabledFunctionAuth openConfig (exampleEnv True None)
      (exampleRequest ''POST'' exampleBody)) = [EvObjectWrite ''2020/04/01/02/00/abc'' ''[1]'']"
    using v
    by (simp add: handler_decoded [OF d] storageWrites_def addToDatabase_effects addRecord_writes
        storageKey_def Time_Format_key_example)
  have u: "Time_Format_key (Time_UTC (time_Now (exampleEnv True None))) @ ID exampleSubmission =
     ''2020/04/01/00/00/abc''"
    by (simp add: Time_Format_key_example_UTC)
  show ?thesis
    by (simp only: w u) simp
qed

text \<open>
  C8, amended. Every write to the bucket made by a run has as key the current time in
  the process's local zone, formatted as year/month/day/hour/minute/, followed by the
  identifier of the decoded submission, and as payload the re-serialized raw answers
  field (empty when the re-serialization fails, its error being dropped); so every key
  ends with the submitted identifier; and the time in the key is the UTC time when the
  local zone's offset is zero.
\<close>

theorem storage_key_local_time:
  "\<forall>name payload.
     EvObjectWrite name payload \<in> set (effects (CORSEnabledFunctionAuth cfg ev r)) \<longrightarrow>
       (\<exists>t. decodes_to ev r t \<and>
          name = Time_Format_key (time_Now ev) @ ID t \<and>
          payload = (case json_Marshal_RawMessage ev (Answers t) of
                       Inl err \<Rightarrow> [] | Inr answers \<Rightarrow> answers) \<and>
          drop (length name - length (ID t)) name = ID t \<and>
          (zoneOffset (time_Now ev) = 0 \<longrightarrow>
             name = Time_Format_key (Time_UTC (time_Now ev)) @ ID t))"
proof (intro allI impI)
  fix name payload
  assume "EvObjectWrite name payload \<in> set (effects (CORSEnabledFunctionAuth cfg ev r))"
  then have w: "EvObjectWrite name payload \<in> set (storageWrites (CORSEnabledFunctionAuth cfg ev r))"
    by (simp add: storageWrites_def)
  show "\<exists>t. decodes_to ev r t \<and>
          name = Time_Format_key (time_Now ev) @ ID t \<and>
          payload = (case json_Marshal_RawMessage ev (Answers t) of
                       Inl err \<Rightarrow> [] | Inr answers \<Rightarrow> answers) \<and>
          drop (length name - length (ID t)) name = ID t \<and>
          (zoneOffset (time_Now ev) = 0 \<longrightarrow>
             name = Time_Format_key (Time_UTC (time_Now ev)) @ ID t)"
  proof (cases "\<exists>t. decodes_to ev r t")
    case False
    with w show ?thesis by (simp add: handler_early_effects)
  next
    case True
    then obtain t where t: "decodes_to ev r t" ..
    from w handler_decoded_writes [OF t, of cfg]
    have "name = storageKey ev t" and "payload = storagePayload ev t"
      by auto
    then have "name = Time_Format_key (time_Now ev) @ ID t \<and>
          payload = (case json_Marshal_RawMessage ev (Answers t) of
                       Inl err \<Rightarrow> [] | Inr answers \<Rightarrow> answers) \<and>
          drop (length name - length (ID t)) name = ID t \<and>
          (zoneOffset (time_Now ev) = 0 \<longrightarrow>
             name = Time_Format_key (Time_UTC (time_Now ev)) @ ID t)"
      by (simp add: storageKey_def storagePayload_def Time_UTC_same)
    with t show ?thesis by blast
  qed
qed

text \<open>C8 amended, at the example submission.\<close>

theorem storage_key_local_time_witness:
  "EvObjectWrite ''2020/04/01/02/00/abc'' ''[1]'' \<in>
     set (effects (CORSEnabledFunctionAuth openConfig (exampleEnv True None)
       (exampleRequest ''POST'' exampleBody))) \<and>
   decodes_to (exampleEnv True None) (exampleRequest ''POST'' exampleBody) exampleSubmission \<and>
   ''2020/04/01/02/00/abc'' = Time_Format_key (time_Now (exampleEnv True None)) @ ID exampleSubmission \<and>
   drop (length ''2020/04/01/02/00/abc'' - length (ID exampleSubmission)) ''2020/04/01/02/00/abc'' =
     ID exampleSubmission"
proof -
  have d: "decodes_to (exampleEnv True None) (exampleRequest ''POST'' exampleBody) exampleSubmission"
    by (rule decodes_example) (simp add: MethodOptions_def)
  have v: "\<not> mustVerify openConfig exampleSubmission"
    by (simp add: mustVerify_def openConfig_def)
  have w: "EvObjectWrite ''2020/04/01/02/00/abc'' ''[1]'' \<in>
     set (effects (CORSEnabledFunctionAuth openConfig (exampleEnv True None)
       (exampleRequest ''POST'' exampleBody)))"
    using v
    by (simp add: handler_decoded [OF d] addToDatabase_effects addRecord_events
        storageKey_def Time_Format_key_example)
  from storage_key_local_time [of openConfig "exampleEnv True None"
      "exampleRequest ''POST'' exampleBody"] w
  obtain t where t: "decodes_to (exampleEnv True None) (exampleRequest ''POST'' exampleBody) t"
    and k: "''2020/04/01/02/00/abc'' = Time_Format_key (time_Now (exampleEnv True None)) @ ID t"
    and s: "drop (length ''2020/04/01/02/00/abc'' - length (ID t)) ''2020/04/01/02/00/abc'' = ID t"
    by blast
  have "t = exampleSubmission"
    using d t by (simp add: decodes_to_unique)
  with w d k s show ?thesis by blast
qed

text \<open>
  C9 as stated fails: the response to an OPTIONS request carries five CORS headers, not
  four.
\<close>

theorem preflight_sends_five_headers:
  "req_Method (exampleRequest ''OPTIONS'' exampleBody) = ''OPTIONS'' \<and>
   map fst (w_sentHeader (CORSEnabledFunctionAuth exampleConfig (exampleEnv True None)
      (exampleRequest ''OPTIONS'' exampleBody))) =
     [''Access-Control-Allow-Credentials'', ''Access-Control-Allow-Headers'',
      ''Access-Control-Allow-Methods'', ''Access-Control-Allow-Origin'',
      ''Access-Control-Max-Age''] \<and>
   length (w_sentHeader (CORSEnabledFunctionAuth exampleConfig (exampleEnv True None)
      (exampleRequest ''OPTIONS'' exampleBody))) \<noteq> 4"
proof -
  have m: "req_Method (exampleRequest ''OPTIONS'' exampleBody) = MethodOptions"
    by (simp add: MethodOptions_def)
  have "w_sentHeader (CORSEnabledFunctionAuth exampleConfig (exampleEnv True None)
      (exampleRequest ''OPTIONS'' exampleBody)) =
        [(''Access-Control-Allow-Credentials'', ''true''),
         (''Access-Control-Allow-Headers'', ''Authorization''),
         (''Access-Control-Allow-Methods'', ''POST''),
         (''Access-Control-Allow-Origin'', ''https://screencovid.com''),
         (''Access-Control-Max-Age'', ''3600'')]"
    by (simp add: handler_options [OF m])
  then show ?thesis
    by simp
qed

text \<open>
  C9, amended. For every request whose method is OPTIONS, whatever the configuration,
  the environment and the rest of the request, the response has status 204, the five
  preflight CORS headers (Allow-Credentials, Allow-Headers, Allow-Methods, Allow-Origin,
  Max-Age) and an empty body, and the run has no effect at all: no read of the body, no
  decoding, no verification call, no write to the bucket.
\<close>

theorem preflight_short_circuit:
  assumes "req_Method r = ''OPTIONS''"
  shows "w_status (CORSEnabledFunctionAuth cfg ev r) = 204 \<and>
         w_sentHeader (CORSEnabledFunctionAuth cfg ev r) =
           [(''Access-Control-Allow-Credentials'', ''true''),
            (''Access-Control-Allow-Headers'', ''Authorization''),
            (''Access-Control-Allow-Methods'', ''POST''),
            (''Access-Control-Allow-Origin'', ''https://screencovid.com''),
            (''Access-Control-Max-Age'', ''3600'')] \<and>
         w_body (CORSEnabledFunctionAuth cfg ev r) = [] \<and>
         effects (CORSEnabledFunctionAuth cfg ev r) = []"
proof -
  have "req_Method r = MethodOptions"
    using assms by (simp add: MethodOptions_def)
  then show ?thesis
    by (simp add: handler_options)
qed

text \<open>C9 amended, at an OPTIONS request that carries the example body.\<close>

theorem preflight_short_circuit_witness:
  "req_Method (exampleRequest ''OPTIONS'' exampleBody) = ''OPTIONS'' \<and>
   w_status (CORSEnabledFunctionAuth exampleConfig (exampleEnv True None)
      (exampleRequest ''OPTIONS'' exampleBody)) = 204 \<and>
   length (w_sentHeader (CORSEnabledFunctionAuth exampleConfig (exampleEnv True None)
      (exampleRequest ''OPTIONS'' exampleBody))) = 5 \<and>
   w_body (CORSEnabledFunctionAuth exampleConfig (exampleEnv True None)
      (exampleRequest ''OPTIONS'' exampleBody)) = [] \<and>
   effects (CORSEnabledFunctionAuth exampleConfig (exampleEnv True None)
      (exampleRequest ''OPTIONS'' exampleBody)) = []"
proof -
  have m: "req_Method (exampleRequest ''OPTIONS'' exampleBody) = ''OPTIONS''"
    by simp
  show ?thesis
    using preflight_short_circuit [OF m, of exampleConfig "exampleEnv True None"] m
    by simp
qed

text \<open>
  C10. For every request whose method is not OPTIONS, the run is the run of the same
  request sent as POST: the same response and the same effects.
\<close>

theorem any_other_method_is_handled_as_post:
  assumes "req_Method r \<noteq> ''OPTIONS''"
  shows "CORSEnabledFunctionAuth cfg ev r =
         CORSEnabledFunctionAuth cfg ev (r\<lparr>req_Method := ''POST''\<rparr>)"
proof -
  have m: "req_Method r \<noteq> MethodOptions" and p: "''POST'' \<noteq> MethodOptions"
    using assms by (simp_all add: MethodOptions_def)
  show ?thesis
    unfolding CORSEnabledFunctionAuth_def
    by (simp add: m p Let_def split: prod.splits option.splits sum.splits)
qed

text \<open>
  C10 at a DELETE request: its run is that of the POST, and it reads the body, calls
  the verification service and writes to the bucket.
\<close>

theorem any_other_method_is_handled_as_post_witness:
  "req_Method (exampleRequest ''DELETE'' exampleBody) \<noteq> ''OPTIONS'' \<and>
   CORSEnabledFunctionAuth exampleConfig (exampleEnv True None)
      (exampleRequest ''DELETE'' exampleBody) =
   CORSEnabledFunctionAuth exampleConfig (exampleEnv True None)
      (exampleRequest ''POST'' exampleBody) \<and>
   effects (CORSEnabledFunctionAuth exampleConfig (exampleEnv True None)
      (exampleRequest ''DELETE'' exampleBody)) =
     [EvReadBody exampleBody, EvUnmarshalRequest exampleBody,
      EvPostForm ''https://www.google.com/recaptcha/api/siteverify''
        [(''secret'', [''private-key'']), (''remoteip'', [''tok'']),
         (''response'', [''203.0.113.7''])],
      EvUnmarshalRecaptcha ''{}'',
      EvObjectWrite ''2020/04/01/02/00/abc'' ''[1]'', EvObjectClose ''2020/04/01/02/00/abc'']"
proof -
  have m: "req_Method (exampleRequest ''DELETE'' exampleBody) \<noteq> ''OPTIONS''"
    by simp
  have r: "(exampleRequest ''DELETE'' exampleBody)\<lparr>req_Method := ''POST''\<rparr> =
      exampleRequest ''POST'' exampleBody"
    by (simp add: exampleRequest_def)
  have d: "decodes_to (exampleEnv True None) (exampleRequest ''POST'' exampleBody) exampleSubmission"
    by (rule decodes_example) (simp add: MethodOptions_def)
  have a: "addRecord (exampleEnv True None) ''2020/04/01/02/00/abc'' ''[1]'' =
      (None, [EvObjectWrite ''2020/04/01/02/00/abc'' ''[1]'', EvObjectClose ''2020/04/01/02/00/abc''])"
    by (simp add: addRecord_def exampleEnv_def)
  have e: "effects (CORSEnabledFunctionAuth exampleConfig (exampleEnv True None)
      (exampleRequest ''POST'' exampleBody)) =
     [EvReadBody exampleBody, EvUnmarshalRequest exampleBody,
      EvPostForm ''https://www.google.com/recaptcha/api/siteverify''
        [(''secret'', [''private-key'']), (''remoteip'', [''tok'']),
         (''response'', [''203.0.113.7''])],
      EvUnmarshalRecaptcha ''{}'',
      EvObjectWrite ''2020/04/01/02/00/abc'' ''[1]'', EvObjectClose ''2020/04/01/02/00/abc'']"
    by (simp add: handler_decoded [OF d] example_check exampleVerdict_def addToDatabase_effects
        storageKey_def Time_Format_key_example a recaptchaServerName_def)
  show ?thesis
    using any_other_method_is_handled_as_post [OF m, of exampleConfig "exampleEnv True None"] m e
    by (simp add: r)
qed

end
